theory Spec2Isabelle
  imports Complex_Main
begin

section \<open>Shared types (shared/types.ts)\<close>

text \<open>
  The enums of the source are closed datatypes. Where two enums of the source share a
  member name (\<open>SUSPENDED\<close>, \<open>REVOKED\<close>, \<open>HIGH\<close>, \<open>ACTIVE\<close>), the later one
  carries a prefix. A JavaScript \<open>Date\<close> is its \<open>getTime()\<close> value: an integer number of
  milliseconds since the epoch (every date is a valid date). An optional field \<open>f?: T\<close> is a \<open>T option\<close>; a \<open>Date\<close>
  object is always truthy, so the test \<open>x.f && ...\<close> on an optional date is the test
  that the field is present.
\<close>

datatype AssuranceLevel = LOA1 | LOA2 | LOA3 | LOA4

datatype RiskLevel = LOW | MEDIUM | HIGH | VERY_HIGH

datatype ProcessStatus =
  PENDING | IN_PROGRESS | COMPLETED | FAILED | PROCESS_SUSPENDED | PROCESS_REVOKED

datatype ParticipantType =
  CREDENTIAL_SERVICE_PROVIDER | AUTHENTICATION_SERVICE_PROVIDER | IDENTITY_PROVIDER
  | VERIFIER | ISSUER | WALLET_PROVIDER | TRUST_REGISTRY | RELYING_PARTY

type_synonym Date = int

record ConformanceCriteria =
  cc_id :: string
  description :: string
  cc_assuranceLevel :: AssuranceLevel
  riskLevel :: RiskLevel
  isRequired :: bool
  mitigationStrategies :: "string list"

text \<open>
  \<open>ProcessResult\<close>: the uniform result envelope. Its \<open>data\<close> field has type \<open>any\<close> in
  the source; here it is a type parameter, instantiated by each component with a
  datatype of the shapes that component returns.
\<close>

record 'd ProcessResult =
  success :: bool
  message :: string
  data :: "'d option"
  errors :: "string list option"
  timestamp :: Date

section \<open>JavaScript \<open>Map\<close> as an insertion-ordered association list\<close>

text \<open>
  A \<open>Map\<close> keyed by strings iterates in insertion order, and \<open>set\<close> on a key already
  present replaces the value in place. The objects stored in the source's maps are
  mutated in place through the reference the map holds; in the model such a mutation is
  a \<open>map_set\<close> of the changed value under the same key (or a \<open>map\<close> over the
  values, for a loop over the whole map). The provider alone writes to the objects it
  stores: a caller that keeps a reference to a stored object and assigns to its fields
  acts outside the operations modelled here.
\<close>

type_synonym 'v jsmap = "(string \<times> 'v) list"

fun map_get :: "'v jsmap \<Rightarrow> string \<Rightarrow> 'v option" where
  "map_get [] k = None"
| "map_get ((k', v) # m) k = (if k' = k then Some v else map_get m k)"

definition map_has :: "'v jsmap \<Rightarrow> string \<Rightarrow> bool" where
  "map_has m k = (map_get m k \<noteq> None)"

fun map_set :: "'v jsmap \<Rightarrow> string \<Rightarrow> 'v \<Rightarrow> 'v jsmap" where
  "map_set [] k v = [(k, v)]"
| "map_set ((k', v') # m) k v = (if k' = k then (k, v) # m else (k', v') # map_set m k v)"

definition map_values :: "'v jsmap \<Rightarrow> 'v list" where
  "map_values m = map snd m"

section \<open>Trust registry: data model (trust-registry provider)\<close>

datatype TrustStatus = TRUSTED | PROVISIONAL | SUSPENDED | REVOKED | UNKNOWN

datatype CertificationStatus = ACTIVE | CERT_SUSPENDED | CERT_EXPIRED | CERT_REVOKED

record TrustCertification =
  certificationId :: string
  issuingAuthority :: string
  certificationStandard :: string
  issuanceDate :: Date
  cert_expirationDate :: "Date option"
  scope :: "string list"
  cert_status :: CertificationStatus

record PostalAddress =
  street :: string
  city :: string
  province :: string
  postalCode :: string
  country :: string

record TrustRegistryContactInfo =
  organizationName :: string
  contactPerson :: string
  email :: string
  phone :: "string option"
  address :: PostalAddress
  website :: "string option"

record PublicKeyInfo =
  keyId :: string
  keyType :: string
  publicKey :: string
  usage :: "string list"
  key_validFrom :: Date
  key_validUntil :: "Date option"
  algorithm :: string

record TrustRegistryEntry =
  participantId :: string
  name :: string
  ptype :: ParticipantType
  status :: TrustStatus
  assuranceLevel :: AssuranceLevel
  certifications :: "TrustCertification list"
  registrationDate :: Date
  lastVerified :: Date
  expirationDate :: "Date option"
  trustScore :: int
  governanceFramework :: string
  contactInformation :: TrustRegistryContactInfo
  publicKeys :: "PublicKeyInfo list"

section \<open>Trust score (calculateTrustScore)\<close>

text \<open>
  The clock: every \<open>new Date()\<close> and \<open>Date.now()\<close> read inside one call of
  \<open>calculateTrustScore\<close> is the one instant \<open>now\<close>. The scores are sums of integer
  constants, so \<open>number\<close> is \<open>int\<close>. \<open>Math.floor (d / 86400000)\<close> on an integer
  difference \<open>d\<close> is \<open>d div 86400000\<close>: HOL's \<open>div\<close> on \<open>int\<close> rounds towards minus
  infinity, as \<open>Math.floor\<close> does.
\<close>

definition isActiveCert :: "Date \<Rightarrow> TrustCertification \<Rightarrow> bool" where
  "isActiveCert now cert =
     (cert_status cert = ACTIVE \<and>
      (case cert_expirationDate cert of None \<Rightarrow> True | Some d \<Rightarrow> d > now))"

definition calculateTrustScore :: "Date \<Rightarrow> TrustRegistryEntry \<Rightarrow> int" where
  "calculateTrustScore now entry =
     (let score = 50;
          score = (case status entry of
                     TRUSTED \<Rightarrow> score + 30
                   | PROVISIONAL \<Rightarrow> score + 10
                   | SUSPENDED \<Rightarrow> score - 20
                   | REVOKED \<Rightarrow> score - 50
                   | UNKNOWN \<Rightarrow> score);
          score = (case assuranceLevel entry of
                     LOA4 \<Rightarrow> score + 20
                   | LOA3 \<Rightarrow> score + 15
                   | LOA2 \<Rightarrow> score + 10
                   | LOA1 \<Rightarrow> score + 5);
          activeCerts = filter (isActiveCert now) (certifications entry);
          score = score + min (int (length activeCerts) * 5) 20;
          daysSinceRegistration = (now - registrationDate entry) div (1000 * 60 * 60 * 24);
          score = (if daysSinceRegistration > 365 then score + 5 else score);
          daysSinceLastVerified = (now - lastVerified entry) div (1000 * 60 * 60 * 24);
          score = (if daysSinceLastVerified > 90 then score - 5 else score)
      in max 0 (min 100 score))"

text \<open>
  The terms of the score formula as the specification words them: the two bonus tables,
  the count of active certifications, and the whole days elapsed as the floor of a
  rational quotient.
\<close>

definition spec_statusBonus :: "TrustStatus \<Rightarrow> int" where
  "spec_statusBonus s =
     (if s = TRUSTED then 30 else if s = PROVISIONAL then 10
      else if s = SUSPENDED then - 20 else if s = REVOKED then - 50 else 0)"

definition spec_assuranceBonus :: "AssuranceLevel \<Rightarrow> int" where
  "spec_assuranceBonus l =
     (if l = LOA4 then 20 else if l = LOA3 then 15 else if l = LOA2 then 10 else 5)"

definition spec_activeCertCount :: "Date \<Rightarrow> TrustRegistryEntry \<Rightarrow> int" where
  "spec_activeCertCount now entry =
     int (length (filter
       (\<lambda>c. cert_status c = ACTIVE \<and>
            (cert_expirationDate c = None \<or>
             (case cert_expirationDate c of Some d \<Rightarrow> now < d | None \<Rightarrow> False)))
       (certifications entry)))"

definition spec_wholeDaysSince :: "Date \<Rightarrow> Date \<Rightarrow> int" where
  "spec_wholeDaysSince now d = \<lfloor>(of_int (now - d) :: rat) / of_int 86400000\<rfloor>"

section \<open>Trust registry: provider state and results\<close>

record TrustVerificationRequest =
  req_participantId :: string
  requestedBy :: string
  verificationScope :: "string list"
  requestDate :: Date

record VerificationDetails =
  criteriaChecked :: "string list"
  passed :: "string list"
  failed :: "string list"
  warnings :: "string list"

record Validity =
  validFrom :: Date
  validUntil :: Date

record TrustVerificationResult =
  res_participantId :: string
  trustStatus :: TrustStatus
  res_trustScore :: int
  verificationDate :: Date
  verificationDetails :: VerificationDetails
  validity :: Validity

text \<open>
  The provider object. \<open>trustEntries\<close> and \<open>verificationHistory\<close> are its two private
  maps: together they are the store. \<open>console.log\<close> output (\<open>logActivity\<close>) is not
  part of the state and is left out.
\<close>

record TrustRegistryProvider =
  processId :: string
  reg_name :: string
  reg_description :: string
  reg_status :: ProcessStatus
  reg_assuranceLevel :: AssuranceLevel
  registryId :: string
  reg_governanceFramework :: string
  trustEntries :: "TrustRegistryEntry jsmap"
  verificationHistory :: "TrustVerificationResult list jsmap"

definition newTrustRegistryProvider ::
  "string \<Rightarrow> string \<Rightarrow> string \<Rightarrow> AssuranceLevel \<Rightarrow> TrustRegistryProvider" where
  "newTrustRegistryProvider rid nm gf al =
     \<lparr> processId = ''TRUST-REG-'' @ rid,
       reg_name = nm,
       reg_description = ''PCTF Trust Registry Service Provider'',
       reg_status = PENDING,
       reg_assuranceLevel = al,
       registryId = rid,
       reg_governanceFramework = gf,
       trustEntries = [],
       verificationHistory = [] \<rparr>"

text \<open>The shapes of \<open>data\<close> that the registry's operations return.\<close>

datatype RegistryData =
  SweepData string nat string
  | RegisteredData string int
  | VerificationData TrustVerificationResult
  | StatusUpdateData string TrustStatus TrustStatus int

type_synonym RegistryResult = "RegistryData ProcessResult"

text \<open>
  Template literals: an enum member prints as its name, an integer in decimal.
  \<open>number_string\<close> is what JavaScript prints for an integer of magnitude below 10^21;
  from there on JavaScript prints the exponent form, which is not modelled. The function
  is used only for the text of the issue raised on a score outside the interval from 0 to
  100; whether an issue is raised does not depend on it.
\<close>

fun TrustStatus_string :: "TrustStatus \<Rightarrow> string" where
  "TrustStatus_string TRUSTED = ''TRUSTED''"
| "TrustStatus_string PROVISIONAL = ''PROVISIONAL''"
| "TrustStatus_string SUSPENDED = ''SUSPENDED''"
| "TrustStatus_string REVOKED = ''REVOKED''"
| "TrustStatus_string UNKNOWN = ''UNKNOWN''"

fun nat_string :: "nat \<Rightarrow> string" where
  "nat_string n =
     (if n < 10 then [''0123456789'' ! n]
      else nat_string (n div 10) @ [''0123456789'' ! (n mod 10)])"

declare nat_string.simps [simp del]

definition number_string :: "int \<Rightarrow> string" where
  "number_string i = (if i < 0 then ''-'' @ nat_string (nat (- i)) else nat_string (nat i))"

section \<open>Trust registry: operations\<close>

text \<open>
  Every public operation takes the instant \<open>now\<close> that its clock reads return and the
  provider state, and returns the new state with the result envelope. The \<open>catch\<close>
  branches of the source are not reachable on well-typed input (nothing in the bodies
  throws), so they have no counterpart here.
\<close>

definition validateInput :: "TrustRegistryEntry \<Rightarrow> bool" where
  \<comment> \<open>\<open>type\<close>, \<open>assuranceLevel\<close> and \<open>contactInformation\<close> are truthy for every
      value of their declared types; a string is truthy when it is not empty.\<close>
  "validateInput entry = (participantId entry \<noteq> [] \<and> name entry \<noteq> [])"

definition certificationIssues :: "Date \<Rightarrow> TrustCertification \<Rightarrow> string list" where
  "certificationIssues now cert =
     (if certificationId cert = [] \<or> issuingAuthority cert = []
      then [''Invalid certification: missing required fields''] else [])
     @ (case cert_expirationDate cert of
          None \<Rightarrow> []
        | Some d \<Rightarrow> if d < now
            then [''Certification '' @ certificationId cert @ '' has expired''] else [])"

definition validateCertifications :: "Date \<Rightarrow> TrustCertification list \<Rightarrow> RegistryResult" where
  "validateCertifications now certs =
     (let issues = concat (map (certificationIssues now) certs)
      in if length issues > 0
         then \<lparr> success = False, message = ''Certification validation failed'',
                data = None, errors = Some issues, timestamp = now \<rparr>
         else \<lparr> success = True, message = ''Certification validation passed'',
                data = None, errors = None, timestamp = now \<rparr>)"

definition registerParticipant ::
  "Date \<Rightarrow> TrustRegistryEntry \<Rightarrow> TrustRegistryProvider
     \<Rightarrow> TrustRegistryProvider \<times> RegistryResult" where
  "registerParticipant now entry st =
     (if \<not> validateInput entry
      then (st, \<lparr> success = False, message = ''Invalid trust registry entry data'',
                  data = None, errors = None, timestamp = now \<rparr>)
      else if map_has (trustEntries st) (participantId entry)
      then (st, \<lparr> success = False, message = ''Participant already registered'',
                  data = None, errors = None, timestamp = now \<rparr>)
      else let certificationValidation = validateCertifications now (certifications entry)
           in if \<not> success certificationValidation
              then (st, certificationValidation)
              else let entry = entry \<lparr> trustScore := calculateTrustScore now entry \<rparr>
                   in (st \<lparr> trustEntries :=
                               map_set (trustEntries st) (participantId entry) entry \<rparr>,
                       \<lparr> success = True, message = ''Participant registered successfully'',
                         data = Some (RegisteredData (participantId entry) (trustScore entry)),
                         errors = None, timestamp = now \<rparr>))"

definition performTrustVerification ::
  "Date \<Rightarrow> TrustRegistryEntry \<Rightarrow> TrustVerificationRequest \<Rightarrow> TrustVerificationResult" where
  "performTrustVerification now entry request =
     (let passed0 = []; failed0 = []; warnings0 = [];
          (passed1, failed1) =
            (if status entry = TRUSTED
             then (passed0 @ [''Trust status verification''], failed0)
             else (passed0, failed0 @ [''Trust status is '' @ TrustStatus_string (status entry)]));
          activeCerts = filter (isActiveCert now) (certifications entry);
          (passed2, failed2) =
            (if length activeCerts > 0
             then (passed1 @ [''Active certifications found''], failed1)
             else (passed1, failed1 @ [''No active certifications'']));
          (passed3, warnings3, failed3) =
            (if trustScore entry \<ge> 70
             then (passed2 @ [''Trust score meets threshold''], warnings0, failed2)
             else if trustScore entry \<ge> 50
             then (passed2, warnings0 @ [''Trust score below recommended threshold''], failed2)
             else (passed2, warnings0, failed2 @ [''Trust score too low'']));
          trustStatus0 = TRUSTED;
          trustStatus1 = (if length failed3 > 0 then PROVISIONAL else trustStatus0);
          trustStatus2 = (if status entry \<noteq> TRUSTED then status entry else trustStatus1)
      in \<lparr> res_participantId = participantId entry,
           trustStatus = trustStatus2,
           res_trustScore = trustScore entry,
           verificationDate = now,
           verificationDetails =
             \<lparr> criteriaChecked = passed3 @ failed3 @ warnings3,
               passed = passed3, failed = failed3, warnings = warnings3 \<rparr>,
           validity = \<lparr> validFrom = now, validUntil = now + 24 * 60 * 60 * 1000 \<rparr> \<rparr>)"

definition verifyTrust ::
  "Date \<Rightarrow> TrustVerificationRequest \<Rightarrow> TrustRegistryProvider
     \<Rightarrow> TrustRegistryProvider \<times> RegistryResult" where
  "verifyTrust now request st =
     (case map_get (trustEntries st) (req_participantId request) of
        None \<Rightarrow>
          (st, \<lparr> success = False, message = ''Participant not found in trust registry'',
                 data = None, errors = None, timestamp = now \<rparr>)
      | Some entry \<Rightarrow>
          (let verificationResult = performTrustVerification now entry request;
               history = verificationHistory st;
               history = (if \<not> map_has history (req_participantId request)
                          then map_set history (req_participantId request) []
                          else history);
               history = (case map_get history (req_participantId request) of
                            None \<Rightarrow> history
                          | Some results \<Rightarrow>
                              map_set history (req_participantId request)
                                (results @ [verificationResult]))
           in (st \<lparr> verificationHistory := history \<rparr>,
               \<lparr> success = True, message = ''Trust verification completed'',
                 data = Some (VerificationData verificationResult),
                 errors = None, timestamp = now \<rparr>)))"

definition getTrustEntry :: "TrustRegistryProvider \<Rightarrow> string \<Rightarrow> TrustRegistryEntry option" where
  "getTrustEntry st pid = map_get (trustEntries st) pid"

definition getVerificationHistory ::
  "TrustRegistryProvider \<Rightarrow> string \<Rightarrow> TrustVerificationResult list" where
  "getVerificationHistory st pid =
     (case map_get (verificationHistory st) pid of None \<Rightarrow> [] | Some results \<Rightarrow> results)"

record SearchCriteria =
  crit_type :: "ParticipantType option"
  crit_status :: "TrustStatus option"
  crit_assuranceLevel :: "AssuranceLevel option"
  minTrustScore :: "int option"

definition matchesCriteria :: "SearchCriteria \<Rightarrow> TrustRegistryEntry \<Rightarrow> bool" where
  \<comment> \<open>The filter callback. An enum member is a non-empty string, truthy whenever it is
      present; the number \<open>minTrustScore\<close>, an integer like the scores it is compared
      with, is truthy when present and not zero.\<close>
  "matchesCriteria criteria entry =
     (if (case crit_type criteria of None \<Rightarrow> False | Some t \<Rightarrow> ptype entry \<noteq> t) then False
      else if (case crit_status criteria of None \<Rightarrow> False | Some s \<Rightarrow> status entry \<noteq> s)
      then False
      else if (case crit_assuranceLevel criteria of
                 None \<Rightarrow> False | Some l \<Rightarrow> assuranceLevel entry \<noteq> l)
      then False
      else if (case minTrustScore criteria of
                 None \<Rightarrow> False | Some m \<Rightarrow> m \<noteq> 0 \<and> trustScore entry < m)
      then False
      else True)"

definition searchTrustRegistry ::
  "SearchCriteria \<Rightarrow> TrustRegistryProvider \<Rightarrow> TrustRegistryEntry list" where
  "searchTrustRegistry criteria st =
     filter (matchesCriteria criteria) (map_values (trustEntries st))"

definition updateParticipantStatus ::
  "Date \<Rightarrow> string \<Rightarrow> TrustStatus \<Rightarrow> string \<Rightarrow> TrustRegistryProvider
     \<Rightarrow> TrustRegistryProvider \<times> RegistryResult" where
  "updateParticipantStatus now pid newStatus reason st =
     (case map_get (trustEntries st) pid of
        None \<Rightarrow>
          (st, \<lparr> success = False, message = ''Participant not found'',
                 data = None, errors = None, timestamp = now \<rparr>)
      | Some entry \<Rightarrow>
          (let previousStatus = status entry;
               entry = entry \<lparr> status := newStatus \<rparr>;
               entry = entry \<lparr> lastVerified := now \<rparr>;
               entry = entry \<lparr> trustScore := calculateTrustScore now entry \<rparr>
           in (st \<lparr> trustEntries := map_set (trustEntries st) pid entry \<rparr>,
               \<lparr> success = True, message = ''Participant status updated successfully'',
                 data = Some (StatusUpdateData pid previousStatus newStatus (trustScore entry)),
                 errors = None, timestamp = now \<rparr>)))"

subsection \<open>The maintenance sweep (executeProcess)\<close>

definition entryIssues :: "Date \<Rightarrow> string \<Rightarrow> TrustRegistryEntry \<Rightarrow> string list" where
  \<comment> \<open>One turn of the loop of \<open>validateRegistryIntegrity\<close>.\<close>
  "entryIssues now pid entry =
     (case expirationDate entry of
        None \<Rightarrow> []
      | Some d \<Rightarrow> if d < now then [''Entry '' @ pid @ '' has expired''] else [])
     @ concat (map (\<lambda>cert.
         case cert_expirationDate cert of
           None \<Rightarrow> []
         | Some d \<Rightarrow> if d < now
             then [''Certification '' @ certificationId cert @ '' for '' @ pid
                   @ '' has expired'']
             else []) (certifications entry))
     @ (if trustScore entry < 0 \<or> trustScore entry > 100
        then [''Invalid trust score for '' @ pid @ '': '' @ number_string (trustScore entry)]
        else [])"

definition integrityIssues :: "Date \<Rightarrow> TrustRegistryProvider \<Rightarrow> string list" where
  "integrityIssues now st =
     concat (map (\<lambda>(pid, entry). entryIssues now pid entry) (trustEntries st))"

definition validateRegistryIntegrity :: "Date \<Rightarrow> TrustRegistryProvider \<Rightarrow> RegistryResult" where
  "validateRegistryIntegrity now st =
     (let issues = integrityIssues now st
      in if length issues > 0
         then \<lparr> success = False, message = ''Registry integrity validation failed'',
                data = None, errors = Some issues, timestamp = now \<rparr>
         else \<lparr> success = True, message = ''Registry integrity validation passed'',
                data = None, errors = None, timestamp = now \<rparr>)"

definition updateTrustScores :: "Date \<Rightarrow> TrustRegistryProvider \<Rightarrow> TrustRegistryProvider" where
  "updateTrustScores now st =
     st \<lparr> trustEntries :=
            map (\<lambda>(pid, entry).
                   let newScore = calculateTrustScore now entry
                   in if newScore \<noteq> trustScore entry
                      then (pid, entry \<lparr> trustScore := newScore \<rparr>)
                      else (pid, entry))
              (trustEntries st) \<rparr>"

definition processExpiredEntries ::
  "Date \<Rightarrow> TrustRegistryProvider \<Rightarrow> TrustRegistryProvider" where
  "processExpiredEntries now st =
     st \<lparr> trustEntries :=
            map (\<lambda>(pid, entry).
                   if (case expirationDate entry of None \<Rightarrow> False | Some d \<Rightarrow> d < now)
                      \<and> status entry = TRUSTED
                   then (pid, entry \<lparr> status := SUSPENDED \<rparr>)
                   else (pid, entry))
              (trustEntries st) \<rparr>"

text \<open>
  The sweep runs three phases, each of which reads the clock itself: the integrity check
  at \<open>tCheck\<close>, the score update at \<open>tScore\<close> and the expiry pass at \<open>tExpire\<close>
  (the reads inside one phase are one instant). A caller that wants the whole sweep at
  one instant passes the same value three times.
\<close>

definition executeProcess ::
  "Date \<Rightarrow> Date \<Rightarrow> Date \<Rightarrow> TrustRegistryProvider
     \<Rightarrow> TrustRegistryProvider \<times> RegistryResult" where
  "executeProcess tCheck tScore tExpire st =
     (let st = st \<lparr> reg_status := IN_PROGRESS \<rparr>;
          integrityCheck = validateRegistryIntegrity tCheck st
      in if \<not> success integrityCheck
         then (st \<lparr> reg_status := FAILED \<rparr>, integrityCheck)
         else let st = updateTrustScores tScore st;
                  st = processExpiredEntries tExpire st;
                  st = st \<lparr> reg_status := COMPLETED \<rparr>
              in (st, \<lparr> success = True, message = ''Trust registry validated successfully'',
                        data = Some (SweepData (registryId st) (length (trustEntries st))
                                       (reg_governanceFramework st)),
                        errors = None, timestamp = tExpire \<rparr>))"

section \<open>Capability providers attached by the orchestrator\<close>

text \<open>
  Of each provider the orchestrator uses the constructor and \<open>getConformanceCriteria\<close>.
  A provider is the record of the fields its constructor sets; the private collections
  a provider fills later through its own operations start empty and are left out.
\<close>

definition criterion ::
  "string \<Rightarrow> string \<Rightarrow> AssuranceLevel \<Rightarrow> RiskLevel \<Rightarrow> bool \<Rightarrow> string list
     \<Rightarrow> ConformanceCriteria" where
  "criterion i d al rl req ms =
     \<lparr> cc_id = i, description = d, cc_assuranceLevel = al, riskLevel = rl,
       isRequired = req, mitigationStrategies = ms \<rparr>"

record AuthenticationServiceProvider =
  auth_participantId :: string
  auth_name :: string
  auth_assuranceLevel :: AssuranceLevel

definition newAuthenticationServiceProvider ::
  "string \<Rightarrow> string \<Rightarrow> AssuranceLevel \<Rightarrow> AuthenticationServiceProvider" where
  "newAuthenticationServiceProvider pid nm al =
     \<lparr> auth_participantId = pid, auth_name = nm, auth_assuranceLevel = al \<rparr>"

definition auth_getConformanceCriteria ::
  "AuthenticationServiceProvider \<Rightarrow> ConformanceCriteria list" where
  "auth_getConformanceCriteria p =
     [criterion ''AUTH-CC-01''
        ''Credential Service Provider maintains secure credential lifecycle''
        (auth_assuranceLevel p) HIGH True
        [''Implement secure key management'', ''Regular security audits'',
         ''Multi-factor authentication for administrative access''],
      criterion ''AUTH-CC-02''
        ''Authentication processes protect against replay attacks''
        (auth_assuranceLevel p) MEDIUM True
        [''Use time-based tokens'', ''Implement nonce validation'',
         ''Session timeout controls''],
      criterion ''AUTH-CC-03''
        ''Biometric authenticators meet specified accuracy requirements''
        (auth_assuranceLevel p) MEDIUM False
        [''Regular calibration of biometric systems'', ''Fallback authentication methods'',
         ''Anti-spoofing measures'']]"

record IdentityProvider =
  idp_providerId :: string
  idp_name :: string
  idp_assuranceLevel :: AssuranceLevel

definition newIdentityProvider :: "string \<Rightarrow> string \<Rightarrow> AssuranceLevel \<Rightarrow> IdentityProvider" where
  "newIdentityProvider pid nm al =
     \<lparr> idp_providerId = pid, idp_name = nm, idp_assuranceLevel = al \<rparr>"

definition idp_getConformanceCriteria :: "IdentityProvider \<Rightarrow> ConformanceCriteria list" where
  "idp_getConformanceCriteria p =
     [criterion ''VP-CC-01''
        ''Identity Provider implements comprehensive identity proofing process''
        (idp_assuranceLevel p) HIGH True
        [''Multi-source evidence validation'', ''Biometric verification when appropriate'',
         ''Regular process audits''],
      criterion ''VP-CC-02''
        ''Evidence validation includes authenticity and integrity checks''
        (idp_assuranceLevel p) HIGH True
        [''Document security feature verification'',
         ''Cross-reference with authoritative sources'', ''Fraud detection algorithms''],
      criterion ''VP-CC-03''
        ''Identity resolution prevents duplicate enrollments''
        (idp_assuranceLevel p) MEDIUM True
        [''Comprehensive database searches'', ''Biometric deduplication'',
         ''Identity attribute correlation'']]"

record PrivacyServiceProvider =
  priv_providerId :: string
  priv_name :: string

definition newPrivacyServiceProvider :: "string \<Rightarrow> string \<Rightarrow> PrivacyServiceProvider" where
  "newPrivacyServiceProvider pid nm = \<lparr> priv_providerId = pid, priv_name = nm \<rparr>"

definition priv_getConformanceCriteria :: "PrivacyServiceProvider \<Rightarrow> ConformanceCriteria list" where
  "priv_getConformanceCriteria p =
     [criterion ''PRIV-CC-01''
        ''Organization implements all PIPEDA principles''
        LOA3 HIGH True
        [''Regular privacy impact assessments'', ''Staff privacy training'',
         ''Privacy by design implementation''],
      criterion ''PRIV-CC-02''
        ''Consent mechanisms are clear, meaningful, and auditable''
        LOA2 MEDIUM True
        [''Plain language consent forms'', ''Granular consent options'',
         ''Consent audit trails''],
      criterion ''PRIV-CC-03''
        ''Data minimization practices are implemented''
        LOA2 MEDIUM True
        [''Purpose limitation controls'', ''Automated data deletion'',
         ''Regular data inventory reviews'']]"

datatype SecurityLevel = BASIC | ENHANCED | SECURITY_HIGH | CRITICAL

record InfrastructureServiceProvider =
  infra_processId :: string
  infra_name :: string
  infra_description :: string
  infra_status :: ProcessStatus
  infra_assuranceLevel :: AssuranceLevel
  infra_providerId :: string
  securityLevel :: SecurityLevel

definition newInfrastructureServiceProvider ::
  "string \<Rightarrow> string \<Rightarrow> SecurityLevel \<Rightarrow> AssuranceLevel \<Rightarrow> InfrastructureServiceProvider" where
  "newInfrastructureServiceProvider pid nm sl al =
     \<lparr> infra_processId = ''INFRA-'' @ pid,
       infra_name = nm,
       infra_description = ''PCTF Infrastructure Service Provider'',
       infra_status = PENDING,
       infra_assuranceLevel = al,
       infra_providerId = pid,
       securityLevel = sl \<rparr>"

definition infra_getConformanceCriteria ::
  "InfrastructureServiceProvider \<Rightarrow> ConformanceCriteria list" where
  "infra_getConformanceCriteria p =
     [criterion ''INFRA-001''
        ''Infrastructure components must meet minimum security standards''
        (infra_assuranceLevel p) HIGH True
        [''Implement multi-layered security controls'',
         ''Regular security assessments and audits'',
         ''Continuous monitoring and alerting''],
      criterion ''INFRA-002''
        ''Infrastructure must maintain 99.9% availability''
        (infra_assuranceLevel p) MEDIUM True
        [''Implement redundancy and failover mechanisms'',
         ''Regular backup and disaster recovery testing'',
         ''Performance monitoring and capacity planning''],
      criterion ''INFRA-003''
        ''All infrastructure changes must be logged and auditable''
        (infra_assuranceLevel p) MEDIUM True
        [''Comprehensive audit logging'', ''Change management processes'',
         ''Regular compliance reviews'']]"

datatype WalletType = MOBILE | WEB | HARDWARE | CLOUD | HYBRID

datatype SecurityFeature =
  BIOMETRIC_AUTH | MULTI_FACTOR_AUTH | HARDWARE_SECURITY_MODULE | SECURE_ENCLAVE
  | END_TO_END_ENCRYPTION

fun getDefaultSecurityFeatures :: "WalletType \<Rightarrow> SecurityFeature list" where
  "getDefaultSecurityFeatures HARDWARE = [END_TO_END_ENCRYPTION, HARDWARE_SECURITY_MODULE]"
| "getDefaultSecurityFeatures MOBILE = [END_TO_END_ENCRYPTION, BIOMETRIC_AUTH, SECURE_ENCLAVE]"
| "getDefaultSecurityFeatures WEB = [END_TO_END_ENCRYPTION, MULTI_FACTOR_AUTH]"
| "getDefaultSecurityFeatures CLOUD = [END_TO_END_ENCRYPTION, MULTI_FACTOR_AUTH]"
| "getDefaultSecurityFeatures HYBRID =
     [END_TO_END_ENCRYPTION, MULTI_FACTOR_AUTH, BIOMETRIC_AUTH]"

record DigitalWalletProvider =
  wallet_processId :: string
  wallet_name :: string
  wallet_description :: string
  wallet_status :: ProcessStatus
  wallet_assuranceLevel :: AssuranceLevel
  walletId :: string
  walletType :: WalletType
  ownerId :: string
  securityFeatures :: "SecurityFeature list"
  isLocked :: bool

definition newDigitalWalletProvider ::
  "string \<Rightarrow> string \<Rightarrow> WalletType \<Rightarrow> string \<Rightarrow> AssuranceLevel \<Rightarrow> DigitalWalletProvider" where
  "newDigitalWalletProvider wid oid wt nm al =
     \<lparr> wallet_processId = ''WALLET-'' @ wid,
       wallet_name = nm,
       wallet_description = ''PCTF Digital Wallet Provider'',
       wallet_status = PENDING,
       wallet_assuranceLevel = al,
       walletId = wid,
       walletType = wt,
       ownerId = oid,
       securityFeatures = getDefaultSecurityFeatures wt,
       isLocked = True \<rparr>"

definition wallet_getConformanceCriteria ::
  "DigitalWalletProvider \<Rightarrow> ConformanceCriteria list" where
  "wallet_getConformanceCriteria p =
     [criterion ''WALLET-001''
        ''Digital wallet must implement strong authentication mechanisms''
        (wallet_assuranceLevel p) HIGH True
        [''Multi-factor authentication required'',
         ''Biometric authentication where supported'',
         ''Hardware security module integration''],
      criterion ''WALLET-002''
        ''Credentials must be stored with end-to-end encryption''
        (wallet_assuranceLevel p) HIGH True
        [''AES-256 encryption for credential storage'',
         ''Key derivation from user authentication'',
         ''Secure key management practices''],
      criterion ''WALLET-003''
        ''All wallet operations must be logged and auditable''
        (wallet_assuranceLevel p) MEDIUM True
        [''Comprehensive audit logging'', ''Tamper-evident log storage'',
         ''Regular log review and analysis'']]"

definition trust_getConformanceCriteria ::
  "TrustRegistryProvider \<Rightarrow> ConformanceCriteria list" where
  "trust_getConformanceCriteria p =
     [criterion ''TRUST-001''
        ''Trust registry must maintain accurate participant information''
        (reg_assuranceLevel p) HIGH True
        [''Regular verification of participant information'',
         ''Automated certification status checking'',
         ''Audit trails for all registry changes''],
      criterion ''TRUST-002''
        ''Trust scores must be calculated using verifiable criteria''
        (reg_assuranceLevel p) MEDIUM True
        [''Transparent trust scoring algorithms'', ''Regular trust score recalculation'',
         ''Third-party validation of scoring methods''],
      criterion ''TRUST-003''
        ''Registry must provide real-time trust verification''
        (reg_assuranceLevel p) MEDIUM True
        [''High availability infrastructure'', ''Distributed registry architecture'',
         ''Real-time status monitoring'']]"

section \<open>Framework orchestrator (shared/framework.ts)\<close>

record PCTFParticipant =
  p_participantId :: string
  p_name :: string
  p_type :: ParticipantType
  certificationLevel :: AssuranceLevel
  isActive :: bool
  p_registrationDate :: Date

record PCTFFramework =
  frameworkId :: string
  version :: string
  participants :: "PCTFParticipant jsmap"
  authenticationProviders :: "AuthenticationServiceProvider jsmap"
  identityProviders :: "IdentityProvider jsmap"
  privacyProviders :: "PrivacyServiceProvider jsmap"
  infrastructureProviders :: "InfrastructureServiceProvider jsmap"
  walletProviders :: "DigitalWalletProvider jsmap"
  trustRegistries :: "TrustRegistryProvider jsmap"

definition newPCTFFramework :: "string \<Rightarrow> string \<Rightarrow> PCTFFramework" where
  "newPCTFFramework fid ver =
     \<lparr> frameworkId = fid, version = ver, participants = [],
       authenticationProviders = [], identityProviders = [], privacyProviders = [],
       infrastructureProviders = [], walletProviders = [], trustRegistries = [] \<rparr>"

record AssessedCriterion =
  criterionId :: string
  ac_description :: string
  ac_isConformant :: bool
  evidence :: string
  lastAssessed :: Date

record ComponentConformanceResult =
  componentName :: string
  isConformant :: bool
  assessedCriteria :: "AssessedCriterion list"
  comp_assessmentDate :: Date

record ConformanceAssessmentResult =
  car_participantId :: string
  assessmentDate :: Date
  overallConformance :: bool
  componentResults :: "ComponentConformanceResult list"

datatype FrameworkData =
  RegistrationData string
  | AssessmentData ConformanceAssessmentResult

type_synonym FrameworkResult = "FrameworkData ProcessResult"

definition validateParticipant :: "Date \<Rightarrow> PCTFParticipant \<Rightarrow> PCTFFramework \<Rightarrow> FrameworkResult" where
  \<comment> \<open>\<open>participant.type\<close> is an enum member, truthy for every value of its type.\<close>
  "validateParticipant now participant fw =
     (if p_participantId participant = [] \<or> p_name participant = []
      then \<lparr> success = False, message = ''Missing required participant information'',
             data = None, errors = None, timestamp = now \<rparr>
      else if map_has (participants fw) (p_participantId participant)
      then \<lparr> success = False, message = ''Participant already registered'',
             data = None, errors = None, timestamp = now \<rparr>
      else \<lparr> success = True, message = ''Participant validation successful'',
             data = None, errors = None, timestamp = now \<rparr>)"

text \<open>
  The bodies of the \<open>case\<close> groups of the \<open>switch\<close> in \<open>initializeServiceProviders\<close>.
\<close>

definition attachAuthentication :: "PCTFParticipant \<Rightarrow> PCTFFramework \<Rightarrow> PCTFFramework" where
  "attachAuthentication participant fw =
     fw \<lparr> authenticationProviders :=
            map_set (authenticationProviders fw) (p_participantId participant)
              (newAuthenticationServiceProvider (p_participantId participant)
                 (p_name participant) (certificationLevel participant)) \<rparr>"

definition attachIdentity :: "PCTFParticipant \<Rightarrow> PCTFFramework \<Rightarrow> PCTFFramework" where
  "attachIdentity participant fw =
     fw \<lparr> identityProviders :=
            map_set (identityProviders fw) (p_participantId participant)
              (newIdentityProvider (p_participantId participant)
                 (p_name participant) (certificationLevel participant)) \<rparr>"

definition attachWallet :: "PCTFParticipant \<Rightarrow> PCTFFramework \<Rightarrow> PCTFFramework" where
  "attachWallet participant fw =
     fw \<lparr> walletProviders :=
            map_set (walletProviders fw) (p_participantId participant)
              (newDigitalWalletProvider (''WALLET-'' @ p_participantId participant)
                 (p_participantId participant) CLOUD
                 (p_name participant) (certificationLevel participant)) \<rparr>"

definition attachTrustRegistry :: "PCTFParticipant \<Rightarrow> PCTFFramework \<Rightarrow> PCTFFramework" where
  "attachTrustRegistry participant fw =
     fw \<lparr> trustRegistries :=
            map_set (trustRegistries fw) (p_participantId participant)
              (newTrustRegistryProvider (p_participantId participant)
                 (p_name participant) ''DIACC-PCTF'' (certificationLevel participant)) \<rparr>"

definition attachPrivacyInfrastructure ::
  "PCTFParticipant \<Rightarrow> PCTFFramework \<Rightarrow> PCTFFramework" where
  "attachPrivacyInfrastructure participant fw =
     (let fw = fw \<lparr> privacyProviders :=
                      map_set (privacyProviders fw) (p_participantId participant)
                        (newPrivacyServiceProvider (p_participantId participant)
                           (p_name participant)) \<rparr>
      in if certificationLevel participant = LOA3 \<or> certificationLevel participant = LOA4
         then fw \<lparr> infrastructureProviders :=
                     map_set (infrastructureProviders fw) (p_participantId participant)
                       (newInfrastructureServiceProvider (p_participantId participant)
                          (p_name participant) ENHANCED (certificationLevel participant)) \<rparr>
         else fw)"

definition initializeServiceProviders :: "PCTFParticipant \<Rightarrow> PCTFFramework \<Rightarrow> PCTFFramework" where
  "initializeServiceProviders participant fw =
     (case p_type participant of
        AUTHENTICATION_SERVICE_PROVIDER \<Rightarrow> attachAuthentication participant fw
      | CREDENTIAL_SERVICE_PROVIDER \<Rightarrow> attachAuthentication participant fw
      | IDENTITY_PROVIDER \<Rightarrow> attachIdentity participant fw
      | WALLET_PROVIDER \<Rightarrow> attachWallet participant fw
      | TRUST_REGISTRY \<Rightarrow> attachTrustRegistry participant fw
      | ISSUER \<Rightarrow> attachPrivacyInfrastructure participant fw
      | VERIFIER \<Rightarrow> attachPrivacyInfrastructure participant fw
      | RELYING_PARTY \<Rightarrow> attachPrivacyInfrastructure participant fw)"

definition framework_registerParticipant ::
  "Date \<Rightarrow> PCTFParticipant \<Rightarrow> PCTFFramework \<Rightarrow> PCTFFramework \<times> FrameworkResult" where
  "framework_registerParticipant now participant fw =
     (let validation = validateParticipant now participant fw
      in if \<not> success validation then (fw, validation)
         else let fw = fw \<lparr> participants :=
                              map_set (participants fw) (p_participantId participant)
                                participant \<rparr>;
                  fw = initializeServiceProviders participant fw
              in (fw, \<lparr> success = True, message = ''Participant registered successfully'',
                        data = Some (RegistrationData (p_participantId participant)),
                        errors = None, timestamp = now \<rparr>))"

definition assessComponentConformance ::
  "Date \<Rightarrow> string \<Rightarrow> ConformanceCriteria list \<Rightarrow> ComponentConformanceResult" where
  "assessComponentConformance now cname criteria =
     (let assessed = map (\<lambda>c. \<lparr> criterionId = cc_id c,
                                   ac_description = description c,
                                   ac_isConformant = True,
                                   evidence = ''Conformance verified through automated testing'',
                                   lastAssessed = now \<rparr>) criteria;
          overall = list_all ac_isConformant assessed
      in \<lparr> componentName = cname, isConformant = overall,
           assessedCriteria = assessed, comp_assessmentDate = now \<rparr>)"

definition assessIfPresent ::
  "Date \<Rightarrow> string \<Rightarrow> ConformanceCriteria list option \<Rightarrow> ConformanceAssessmentResult
     \<Rightarrow> ConformanceAssessmentResult" where
  \<comment> \<open>The block \<open>assessConformance\<close> repeats for each provider map: \<open>criteria\<close> is
      \<open>None\<close> when the map has no provider under the id.\<close>
  "assessIfPresent now cname criteria conformanceResults =
     (case criteria of
        None \<Rightarrow> conformanceResults
      | Some cs \<Rightarrow>
          (let r = assessComponentConformance now cname cs;
               conformanceResults = conformanceResults
                 \<lparr> componentResults := componentResults conformanceResults @ [r] \<rparr>
           in conformanceResults
                \<lparr> overallConformance :=
                    overallConformance conformanceResults \<and> isConformant r \<rparr>))"

definition assessConformance :: "Date \<Rightarrow> string \<Rightarrow> PCTFFramework \<Rightarrow> FrameworkResult" where
  "assessConformance now pid fw =
     (case map_get (participants fw) pid of
        None \<Rightarrow> \<lparr> success = False, message = ''Participant not found'',
                   data = None, errors = None, timestamp = now \<rparr>
      | Some participant \<Rightarrow>
          (let conformanceResults =
                 \<lparr> car_participantId = pid, assessmentDate = now,
                   overallConformance = True, componentResults = [] \<rparr>;
               conformanceResults = assessIfPresent now ''Authentication''
                 (map_option auth_getConformanceCriteria
                    (map_get (authenticationProviders fw) pid)) conformanceResults;
               conformanceResults = assessIfPresent now ''VerifiedPerson''
                 (map_option idp_getConformanceCriteria
                    (map_get (identityProviders fw) pid)) conformanceResults;
               conformanceResults = assessIfPresent now ''Privacy''
                 (map_option priv_getConformanceCriteria
                    (map_get (privacyProviders fw) pid)) conformanceResults;
               conformanceResults = assessIfPresent now ''Infrastructure''
                 (map_option infra_getConformanceCriteria
                    (map_get (infrastructureProviders fw) pid)) conformanceResults;
               conformanceResults = assessIfPresent now ''DigitalWallet''
                 (map_option wallet_getConformanceCriteria
                    (map_get (walletProviders fw) pid)) conformanceResults;
               conformanceResults = assessIfPresent now ''TrustRegistry''
                 (map_option trust_getConformanceCriteria
                    (map_get (trustRegistries fw) pid)) conformanceResults
           in \<lparr> success = True, message = ''Conformance assessment completed'',
                data = Some (AssessmentData conformanceResults),
                errors = None, timestamp = now \<rparr>))"

section \<open>Properties stated over the model\<close>

definition scoreInRange :: "TrustRegistryEntry \<Rightarrow> bool" where
  "scoreInRange entry = (0 \<le> trustScore entry \<and> trustScore entry \<le> 100)"

definition scoresInRange :: "TrustRegistryProvider \<Rightarrow> bool" where
  "scoresInRange st = list_all (\<lambda>(pid, entry). scoreInRange entry) (trustEntries st)"

definition hasIntegrityIssue :: "Date \<Rightarrow> TrustRegistryProvider \<Rightarrow> bool" where
  \<comment> \<open>Some entry is expired, or has an expired certification, or has a score outside
      the interval from 0 to 100.\<close>
  "hasIntegrityIssue now st =
     list_ex (\<lambda>(pid, entry).
        (case expirationDate entry of None \<Rightarrow> False | Some d \<Rightarrow> d < now)
        \<or> list_ex (\<lambda>cert. case cert_expirationDate cert of None \<Rightarrow> False | Some d \<Rightarrow> d < now)
             (certifications entry)
        \<or> trustScore entry < 0 \<or> trustScore entry > 100)
       (trustEntries st)"

definition expiredAt :: "Date \<Rightarrow> TrustRegistryEntry \<Rightarrow> bool" where
  "expiredAt now entry = (case expirationDate entry of None \<Rightarrow> False | Some d \<Rightarrow> d < now)"

definition demoteIfExpired :: "Date \<Rightarrow> TrustRegistryEntry \<Rightarrow> TrustRegistryEntry" where
  "demoteIfExpired now entry =
     (if expiredAt now entry \<and> status entry = TRUSTED then entry \<lparr> status := SUSPENDED \<rparr>
      else entry)"

definition providersWithinDirectory :: "PCTFFramework \<Rightarrow> bool" where
  \<comment> \<open>Every key of a provider map is the id of a registered participant.\<close>
  "providersWithinDirectory fw =
     list_all (map_has (participants fw))
       (map fst (authenticationProviders fw) @ map fst (identityProviders fw)
        @ map fst (privacyProviders fw) @ map fst (infrastructureProviders fw)
        @ map fst (walletProviders fw) @ map fst (trustRegistries fw))"

definition providerSlots ::
  "PCTFFramework \<Rightarrow> string \<Rightarrow> (string \<times> ConformanceCriteria list option) list" where
  \<comment> \<open>The six provider maps in the fixed order of the provider kinds: the component
      name, and the catalog of the provider stored under the id when there is one.\<close>
  "providerSlots fw pid =
     [(''Authentication'',
         map_option auth_getConformanceCriteria (map_get (authenticationProviders fw) pid)),
      (''VerifiedPerson'',
         map_option idp_getConformanceCriteria (map_get (identityProviders fw) pid)),
      (''Privacy'',
         map_option priv_getConformanceCriteria (map_get (privacyProviders fw) pid)),
      (''Infrastructure'',
         map_option infra_getConformanceCriteria (map_get (infrastructureProviders fw) pid)),
      (''DigitalWallet'',
         map_option wallet_getConformanceCriteria (map_get (walletProviders fw) pid)),
      (''TrustRegistry'',
         map_option trust_getConformanceCriteria (map_get (trustRegistries fw) pid))]"

definition presentSlots ::
  "(string \<times> ConformanceCriteria list option) list \<Rightarrow> (string \<times> ConformanceCriteria list) list"
  where
  "presentSlots slots =
     List.map_filter (\<lambda>(cname, criteria). map_option (Pair cname) criteria) slots"

definition attachedComponents ::
  "PCTFFramework \<Rightarrow> string \<Rightarrow> (string \<times> ConformanceCriteria list) list" where
  \<comment> \<open>The provider maps that contain the id, in the fixed order.\<close>
  "attachedComponents fw pid = presentSlots (providerSlots fw pid)"

definition assessAll ::
  "Date \<Rightarrow> (string \<times> ConformanceCriteria list) list \<Rightarrow> ComponentConformanceResult list" where
  "assessAll now components =
     map (\<lambda>(cname, criteria). assessComponentConformance now cname criteria) components"

definition componentOrder :: "string list" where
  "componentOrder =
     [''Authentication'', ''VerifiedPerson'', ''Privacy'', ''Infrastructure'',
      ''DigitalWallet'', ''TrustRegistry'']"

definition providerPresent :: "PCTFFramework \<Rightarrow> string \<Rightarrow> string \<Rightarrow> bool" where
  "providerPresent fw pid cname =
     (if cname = ''Authentication'' then map_has (authenticationProviders fw) pid
      else if cname = ''VerifiedPerson'' then map_has (identityProviders fw) pid
      else if cname = ''Privacy'' then map_has (privacyProviders fw) pid
      else if cname = ''Infrastructure'' then map_has (infrastructureProviders fw) pid
      else if cname = ''DigitalWallet'' then map_has (walletProviders fw) pid
      else if cname = ''TrustRegistry'' then map_has (trustRegistries fw) pid
      else False)"

definition conformanceOver ::
  "Date \<Rightarrow> string \<Rightarrow> (string \<times> ConformanceCriteria list option) list
     \<Rightarrow> ConformanceAssessmentResult" where
  "conformanceOver now pid slots =
     \<lparr> car_participantId = pid, assessmentDate = now,
       overallConformance = list_all isConformant (assessAll now (presentSlots slots)),
       componentResults = assessAll now (presentSlots slots) \<rparr>"

subsection \<open>Sample data\<close>

definition sampleContact :: TrustRegistryContactInfo where
  "sampleContact =
     \<lparr> organizationName = ''Demo Organization'', contactPerson = ''Trust Officer'',
       email = ''trust@demo.org'', phone = None,
       address = \<lparr> street = ''123 Trust St'', city = ''Ottawa'', province = ''ON'',
                   postalCode = ''K1A 0A4'', country = ''CA'' \<rparr>,
       website = None \<rparr>"

definition sampleCertification :: "Date \<Rightarrow> TrustCertification" where
  "sampleCertification issued =
     \<lparr> certificationId = ''CERT-001'', issuingAuthority = ''DIACC'',
       certificationStandard = ''PCTF-2023'', issuanceDate = issued,
       cert_expirationDate = None, scope = [''identity-verification''],
       cert_status = ACTIVE \<rparr>"

definition sampleEntry ::
  "string \<Rightarrow> string \<Rightarrow> TrustStatus \<Rightarrow> Date \<Rightarrow> Date option \<Rightarrow> TrustRegistryEntry" where
  "sampleEntry pid nm st created expires =
     \<lparr> participantId = pid, name = nm, ptype = VERIFIER, status = st,
       assuranceLevel = LOA2, certifications = [sampleCertification created],
       registrationDate = created, lastVerified = created, expirationDate = expires,
       trustScore = 85, governanceFramework = ''DIACC-PCTF'',
       contactInformation = sampleContact, publicKeys = [] \<rparr>"

definition sampleRegistry :: "TrustRegistryEntry list \<Rightarrow> TrustRegistryProvider" where
  "sampleRegistry entries =
     (newTrustRegistryProvider ''TR-001'' ''National Trust Registry'' ''DIACC-PCTF'' LOA4)
       \<lparr> trustEntries := map (\<lambda>entry. (participantId entry, entry)) entries \<rparr>"

definition sampleRequest :: "string \<Rightarrow> Date \<Rightarrow> TrustVerificationRequest" where
  "sampleRequest pid t =
     \<lparr> req_participantId = pid, requestedBy = ''RP-001'',
       verificationScope = [''identity-verification''], requestDate = t \<rparr>"

definition anyCriteria :: SearchCriteria where
  "anyCriteria = \<lparr> crit_type = None, crit_status = None, crit_assuranceLevel = None,
                   minTrustScore = None \<rparr>"

definition sampleParticipant ::
  "string \<Rightarrow> ParticipantType \<Rightarrow> AssuranceLevel \<Rightarrow> PCTFParticipant" where
  "sampleParticipant pid t level =
     \<lparr> p_participantId = pid, p_name = ''Government Services Portal'', p_type = t,
       certificationLevel = level, isActive = True, p_registrationDate = 0 \<rparr>"

definition expiredTrustedRegistry :: TrustRegistryProvider where
  \<comment> \<open>A registry in which a TRUSTED entry that expires at 1000 was registered at 500.\<close>
  "expiredTrustedRegistry =
     fst (registerParticipant 500 (sampleEntry ''P1'' ''Org One'' TRUSTED 0 (Some 1000))
            (sampleRegistry []))"

definition issuerFramework :: PCTFFramework where
  "issuerFramework =
     fst (framework_registerParticipant 1000 (sampleParticipant ''ISS-001'' ISSUER LOA3)
            (newPCTFFramework ''PCTF'' ''1.0.0''))"

definition bareFramework :: PCTFFramework where
  "bareFramework =
     (newPCTFFramework ''PCTF'' ''1.0.0'')
       \<lparr> participants := [(''X-001'', sampleParticipant ''X-001'' VERIFIER LOA1)] \<rparr>"

section \<open>Facts about the maps and the score range\<close>

lemma map_get_map_set:
  "map_get (map_set m k v) k' = (if k' = k then Some v else map_get m k')"
  by (induction m) auto

lemma map_has_map_set: "map_has (map_set m k v) k' = (k' = k \<or> map_has m k')"
  by (simp add: map_has_def map_get_map_set)

lemma list_all_map_set:
  "list_all P m \<Longrightarrow> P (k, v) \<Longrightarrow> list_all P (map_set m k v)"
  by (induction m) auto

lemma map_get_map_values:
  "map_get (map (\<lambda>(k, v). (k, f v)) m) k = map_option f (map_get m k)"
  by (induction m) auto

lemma calculateTrustScore_range:
  "0 \<le> calculateTrustScore now entry \<and> calculateTrustScore now entry \<le> 100"
  unfolding calculateTrustScore_def Let_def by simp

lemma updateTrustScores_entries:
  "trustEntries (updateTrustScores now st)
     = map (\<lambda>(pid, entry). (pid, entry \<lparr> trustScore := calculateTrustScore now entry \<rparr>))
         (trustEntries st)"
  unfolding updateTrustScores_def by (auto simp: Let_def)

lemma updateTrustScores_range: "scoresInRange (updateTrustScores now st)"
  unfolding scoresInRange_def updateTrustScores_entries
  by (simp add: list_all_iff scoreInRange_def calculateTrustScore_range split_beta)

lemma processExpiredEntries_range:
  "scoresInRange st \<Longrightarrow> scoresInRange (processExpiredEntries now st)"
  unfolding scoresInRange_def processExpiredEntries_def
  by (auto simp: list_all_iff scoreInRange_def split: if_splits)

lemma registerParticipant_range:
  "scoresInRange st \<Longrightarrow> scoresInRange (fst (registerParticipant now entry st))"
  unfolding registerParticipant_def scoresInRange_def
  by (auto simp: Let_def scoreInRange_def calculateTrustScore_range intro!: list_all_map_set)

lemma updateParticipantStatus_range:
  "scoresInRange st \<Longrightarrow> scoresInRange (fst (updateParticipantStatus now pid s reason st))"
  unfolding updateParticipantStatus_def scoresInRange_def
  by (auto simp: Let_def scoreInRange_def calculateTrustScore_range split: option.splits
           intro!: list_all_map_set)

lemma verifyTrust_entries:
  "trustEntries (fst (verifyTrust now request st)) = trustEntries st"
  unfolding verifyTrust_def by (simp add: Let_def split: option.splits)

lemma executeProcess_range:
  "scoresInRange st \<Longrightarrow> scoresInRange (fst (executeProcess t1 t2 t3 st))"
  unfolding executeProcess_def Let_def
  using updateTrustScores_range [of t2 "st\<lparr>reg_status := IN_PROGRESS\<rparr>"]
        processExpiredEntries_range [of "updateTrustScores t2 (st\<lparr>reg_status := IN_PROGRESS\<rparr>)" t3]
  by (auto simp: scoresInRange_def)

lemma registerParticipant_stored:
  "success (snd (registerParticipant now entry st)) \<Longrightarrow>
   map_get (trustEntries (fst (registerParticipant now entry st))) (participantId entry)
     = Some (entry \<lparr> trustScore := calculateTrustScore now entry \<rparr>)"
  unfolding registerParticipant_def
  by (auto simp: Let_def map_get_map_set split: if_splits)

lemma updateParticipantStatus_stored:
  "map_get (trustEntries st) pid = Some entry \<Longrightarrow>
   map_get (trustEntries (fst (updateParticipantStatus now pid s reason st))) pid
     = Some (entry \<lparr> status := s, lastVerified := now,
               trustScore := calculateTrustScore now (entry \<lparr> status := s, lastVerified := now \<rparr>) \<rparr>)"
  unfolding updateParticipantStatus_def
  by (auto simp: Let_def map_get_map_set)

section \<open>The trust score\<close>

lemma spec_wholeDaysSince_div: "spec_wholeDaysSince now x = (now - x) div 86400000"
  unfolding spec_wholeDaysSince_def by (rule floor_divide_of_int_eq)

lemma spec_activeCertCount_filter:
  "spec_activeCertCount now entry
     = int (length (filter (isActiveCert now) (certifications entry)))"
  unfolding spec_activeCertCount_def isActiveCert_def
  by (rule arg_cong [where f = "\<lambda>p. int (length (filter p (certifications entry)))"])
     (auto split: option.splits)

lemma status_case_bonus:
  "(case s of TRUSTED \<Rightarrow> x + 30 | PROVISIONAL \<Rightarrow> x + 10 | SUSPENDED \<Rightarrow> x - 20
      | REVOKED \<Rightarrow> x - 50 | UNKNOWN \<Rightarrow> x) = x + spec_statusBonus s"
  by (cases s) (simp_all add: spec_statusBonus_def)

lemma assurance_case_bonus:
  "(case l of LOA4 \<Rightarrow> x + 20 | LOA3 \<Rightarrow> x + 15 | LOA2 \<Rightarrow> x + 10 | LOA1 \<Rightarrow> x + 5)
     = x + spec_assuranceBonus l"
  by (cases l) (simp_all add: spec_assuranceBonus_def)

lemma day_ms: "(1000 * 60 * 60 * 24 :: int) = 86400000"
  by simp

lemma score_steps:
  "max 0 (min 100 ((if b then (if a then x + 5 else x) - 5 else (if a then x + 5 else x)) :: int))
     = max 0 (min 100 (x + (if a then 5 else 0) - (if b then 5 else 0)))"
  by (cases a; cases b) simp_all

lemma cert_term: "min (n * 5) 20 = min (5 * n) (20::int)"
  by (simp add: mult.commute)

text \<open>
  C1. For every entry and every instant \<open>now\<close>, the score computed by
  \<open>calculateTrustScore\<close> is 50, plus the status bonus (TRUSTED +30, PROVISIONAL +10,
  SUSPENDED -20, REVOKED -50, any other status 0), plus the assurance bonus (LOA4 +20,
  LOA3 +15, LOA2 +10, LOA1 +5), plus \<open>min (5 * activeCertCount) 20\<close> where the count is
  of the certifications that are ACTIVE and have no expiration date or one after
  \<open>now\<close>, plus 5 when the whole-day floor of the days since registration exceeds 365,
  minus 5 when the whole-day floor of the days since the last verification exceeds 90,
  the sum clamped to the interval from 0 to 100.
\<close>

theorem calculateTrustScore_formula:
  "calculateTrustScore now entry =
     max 0 (min 100
       (50 + spec_statusBonus (status entry) + spec_assuranceBonus (assuranceLevel entry)
        + min (5 * spec_activeCertCount now entry) 20
        + (if spec_wholeDaysSince now (registrationDate entry) > 365 then 5 else 0)
        - (if spec_wholeDaysSince now (lastVerified entry) > 90 then 5 else 0)))"
  unfolding calculateTrustScore_def Let_def
    status_case_bonus assurance_case_bonus day_ms
    spec_wholeDaysSince_div spec_activeCertCount_filter score_steps cert_term
  by (rule refl)

theorem calculateTrustScore_formula_witness:
  "calculateTrustScore 172800000 (sampleEntry ''P1'' ''Demo Organization'' TRUSTED 0 None) = 95
   \<and> calculateTrustScore 31622400000
        (sampleEntry ''P1'' ''Demo Organization'' REVOKED 0 (Some 5)) = 15"
  using calculateTrustScore_formula [of 172800000 "sampleEntry ''P1'' ''Demo Organization'' TRUSTED 0 None"]
        calculateTrustScore_formula [of 31622400000 "sampleEntry ''P1'' ''Demo Organization'' REVOKED 0 (Some 5)"]
  by (simp add: spec_statusBonus_def spec_assuranceBonus_def
        spec_activeCertCount_def spec_wholeDaysSince_def sampleEntry_def sampleCertification_def)

text \<open>
  C2. \<open>calculateTrustScore\<close> always returns a value between 0 and 100, whatever its
  input. After a successful \<open>registerParticipant\<close> the stored entry has a score in that
  range, and so has the entry after a successful \<open>updateParticipantStatus\<close>; after the
  sweep's score update every entry has; after a successful sweep every entry has; and
  each of these operations keeps a registry whose scores are all in range in that state.
\<close>

theorem trustScore_clamp_invariant:
  "(0 \<le> calculateTrustScore now entry \<and> calculateTrustScore now entry \<le> 100)
   \<and> (success (snd (registerParticipant now entry st)) \<longrightarrow>
        (case getTrustEntry (fst (registerParticipant now entry st)) (participantId entry) of
           None \<Rightarrow> False | Some e \<Rightarrow> scoreInRange e))
   \<and> (success (snd (updateParticipantStatus now pid s reason st)) \<longrightarrow>
        (case getTrustEntry (fst (updateParticipantStatus now pid s reason st)) pid of
           None \<Rightarrow> False | Some e \<Rightarrow> scoreInRange e))
   \<and> scoresInRange (updateTrustScores now st)
   \<and> (success (snd (executeProcess tCheck tScore tExpire st)) \<longrightarrow>
        scoresInRange (fst (executeProcess tCheck tScore tExpire st)))
   \<and> (scoresInRange st \<longrightarrow>
        scoresInRange (fst (registerParticipant now entry st))
        \<and> scoresInRange (fst (updateParticipantStatus now pid s reason st))
        \<and> scoresInRange (fst (executeProcess tCheck tScore tExpire st)))"
proof -
  have a: "0 \<le> calculateTrustScore now entry \<and> calculateTrustScore now entry \<le> 100"
    by (rule calculateTrustScore_range)
  have b: "success (snd (registerParticipant now entry st)) \<longrightarrow>
        (case getTrustEntry (fst (registerParticipant now entry st)) (participantId entry) of
           None \<Rightarrow> False | Some e \<Rightarrow> scoreInRange e)"
    by (simp add: getTrustEntry_def registerParticipant_stored scoreInRange_def
          calculateTrustScore_range)
  have c: "success (snd (updateParticipantStatus now pid s reason st)) \<longrightarrow>
        (case getTrustEntry (fst (updateParticipantStatus now pid s reason st)) pid of
           None \<Rightarrow> False | Some e \<Rightarrow> scoreInRange e)"
  proof (cases "map_get (trustEntries st) pid")
    case None
    then show ?thesis by (simp add: updateParticipantStatus_def)
  next
    case (Some e)
    then show ?thesis
      by (simp add: getTrustEntry_def updateParticipantStatus_stored scoreInRange_def
            calculateTrustScore_range)
  qed
  have d: "scoresInRange (updateTrustScores now st)"
    by (rule updateTrustScores_range)
  have e: "success (snd (executeProcess tCheck tScore tExpire st)) \<longrightarrow>
        scoresInRange (fst (executeProcess tCheck tScore tExpire st))"
    unfolding executeProcess_def Let_def
    using processExpiredEntries_range [OF updateTrustScores_range,
            of tExpire tScore "st\<lparr>reg_status := IN_PROGRESS\<rparr>"]
    by (simp add: scoresInRange_def)
  from a b c d e show ?thesis
    using registerParticipant_range updateParticipantStatus_range executeProcess_range
    by blast
qed

theorem trustScore_clamp_invariant_witness:
  "success (snd (registerParticipant 1000 (sampleEntry ''P2'' ''Org Two'' PROVISIONAL 0 None)
                   (sampleRegistry [sampleEntry ''P1'' ''Org One'' TRUSTED 0 None])))
   \<and> success (snd (updateParticipantStatus 1000 ''P1'' SUSPENDED ''audit''
                   (sampleRegistry [sampleEntry ''P1'' ''Org One'' TRUSTED 0 None])))
   \<and> success (snd (executeProcess 1000 1000 1000
                   (sampleRegistry [sampleEntry ''P1'' ''Org One'' TRUSTED 0 None])))
   \<and> scoresInRange (sampleRegistry [sampleEntry ''P1'' ''Org One'' TRUSTED 0 None])
   \<and> (case getTrustEntry
              (fst (registerParticipant 1000 (sampleEntry ''P2'' ''Org Two'' PROVISIONAL 0 None)
                      (sampleRegistry [sampleEntry ''P1'' ''Org One'' TRUSTED 0 None]))) ''P2'' of
         None \<Rightarrow> False | Some e \<Rightarrow> scoreInRange e)
   \<and> (case getTrustEntry
              (fst (updateParticipantStatus 1000 ''P1'' SUSPENDED ''audit''
                      (sampleRegistry [sampleEntry ''P1'' ''Org One'' TRUSTED 0 None]))) ''P1'' of
         None \<Rightarrow> False | Some e \<Rightarrow> scoreInRange e)
   \<and> scoresInRange (fst (executeProcess 1000 1000 1000
                            (sampleRegistry [sampleEntry ''P1'' ''Org One'' TRUSTED 0 None])))"
proof -
  let ?st = "sampleRegistry [sampleEntry ''P1'' ''Org One'' TRUSTED 0 None]"
  let ?e = "sampleEntry ''P2'' ''Org Two'' PROVISIONAL 0 None"
  have h1: "success (snd (registerParticipant 1000 ?e ?st))"
    by (simp add: registerParticipant_def validateInput_def map_has_def sampleRegistry_def
          sampleEntry_def newTrustRegistryProvider_def validateCertifications_def
          certificationIssues_def sampleCertification_def Let_def)
  have h2: "success (snd (updateParticipantStatus 1000 ''P1'' SUSPENDED ''audit'' ?st))"
    by (simp add: updateParticipantStatus_def sampleRegistry_def sampleEntry_def
          newTrustRegistryProvider_def Let_def)
  have h3: "success (snd (executeProcess 1000 1000 1000 ?st))"
    by (simp add: executeProcess_def validateRegistryIntegrity_def integrityIssues_def
          entryIssues_def sampleRegistry_def sampleEntry_def newTrustRegistryProvider_def
          sampleCertification_def Let_def)
  have h4: "scoresInRange ?st"
    by (simp add: scoresInRange_def scoreInRange_def sampleRegistry_def sampleEntry_def
          newTrustRegistryProvider_def)
  have p: "participantId ?e = ''P2''"
    by (simp add: sampleEntry_def)
  show ?thesis
    using trustScore_clamp_invariant [of 1000 ?e ?st "''P1''" SUSPENDED "''audit''" 1000 1000 1000]
      h1 h2 h3 h4 unfolding p by blast
qed

section \<open>Verification status\<close>

lemma performTrustVerification_trustStatus:
  "trustStatus (performTrustVerification now entry request) =
     (if status entry \<noteq> TRUSTED then status entry
      else if failed (verificationDetails (performTrustVerification now entry request)) \<noteq> []
      then PROVISIONAL else TRUSTED)"
  unfolding performTrustVerification_def Let_def
  by (simp add: split_beta)

text \<open>
  C3. For every entry found by \<open>verifyTrust\<close>, the status of the returned result starts
  from TRUSTED, is downgraded to PROVISIONAL if the failed list is not empty, and then is
  the persisted status of the entry if that is not TRUSTED, whatever the passed, failed
  and warning lists are. In particular a SUSPENDED entry yields SUSPENDED.
\<close>

theorem verifyTrust_trustStatus:
  assumes "getTrustEntry st (req_participantId request) = Some entry"
  shows "data (snd (verifyTrust now request st))
           = Some (VerificationData (performTrustVerification now entry request))
         \<and> trustStatus (performTrustVerification now entry request) =
             (let computed =
                    (if failed (verificationDetails (performTrustVerification now entry request))
                          \<noteq> []
                     then PROVISIONAL else TRUSTED)
              in if status entry \<noteq> TRUSTED then status entry else computed)
         \<and> (status entry = SUSPENDED \<longrightarrow>
              trustStatus (performTrustVerification now entry request) = SUSPENDED)"
proof -
  have d: "data (snd (verifyTrust now request st))
             = Some (VerificationData (performTrustVerification now entry request))"
    using assms unfolding verifyTrust_def getTrustEntry_def by (simp add: Let_def)
  show ?thesis
    unfolding d Let_def
    by (simp add: performTrustVerification_trustStatus [of now entry request])
qed


theorem verifyTrust_trustStatus_witness:
  "getTrustEntry (sampleRegistry [sampleEntry ''P1'' ''Org One'' SUSPENDED 0 None])
       (req_participantId (sampleRequest ''P1'' 1000))
     = Some (sampleEntry ''P1'' ''Org One'' SUSPENDED 0 None)
   \<and> status (sampleEntry ''P1'' ''Org One'' SUSPENDED 0 None) = SUSPENDED
   \<and> data (snd (verifyTrust 1000 (sampleRequest ''P1'' 1000)
                   (sampleRegistry [sampleEntry ''P1'' ''Org One'' SUSPENDED 0 None])))
       = Some (VerificationData (performTrustVerification 1000
                 (sampleEntry ''P1'' ''Org One'' SUSPENDED 0 None) (sampleRequest ''P1'' 1000)))
   \<and> trustStatus (performTrustVerification 1000
         (sampleEntry ''P1'' ''Org One'' SUSPENDED 0 None) (sampleRequest ''P1'' 1000)) = SUSPENDED"
proof -
  let ?e = "sampleEntry ''P1'' ''Org One'' SUSPENDED 0 None"
  have h: "getTrustEntry (sampleRegistry [?e]) (req_participantId (sampleRequest ''P1'' 1000))
             = Some ?e"
    by (simp add: getTrustEntry_def sampleRegistry_def sampleRequest_def sampleEntry_def)
  have s: "status ?e = SUSPENDED"
    by (simp add: sampleEntry_def)
  show ?thesis
    using verifyTrust_trustStatus [OF h, of 1000] h s by blast
qed

section \<open>The maintenance sweep\<close>

lemma entryIssues_empty:
  "entryIssues now pid entry = [] \<longleftrightarrow>
     \<not> ((case expirationDate entry of None \<Rightarrow> False | Some d \<Rightarrow> d < now)
        \<or> list_ex (\<lambda>cert. case cert_expirationDate cert of None \<Rightarrow> False | Some d \<Rightarrow> d < now)
             (certifications entry)
        \<or> trustScore entry < 0 \<or> trustScore entry > 100)"
  unfolding entryIssues_def
  by (auto simp: list_ex_iff split: option.splits if_splits)

lemma integrityIssues_empty: "integrityIssues now st = [] \<longleftrightarrow> \<not> hasIntegrityIssue now st"
  unfolding integrityIssues_def hasIntegrityIssue_def
  by (simp add: list_ex_iff entryIssues_empty split_beta)

text \<open>
  C5. When the integrity check of the sweep finds an issue (an expired entry, an expired
  certification or a score out of range), \<open>executeProcess\<close> returns a failure and leaves
  the store as it was: the entries and the verification history are unchanged, so no
  score is recomputed and no status demoted. Only the provider's process status changes,
  to FAILED.
\<close>

theorem executeProcess_integrity_gate:
  assumes "hasIntegrityIssue tCheck st"
  shows "success (snd (executeProcess tCheck tScore tExpire st)) = False
         \<and> message (snd (executeProcess tCheck tScore tExpire st))
             = ''Registry integrity validation failed''
         \<and> errors (snd (executeProcess tCheck tScore tExpire st))
             = Some (integrityIssues tCheck st)
         \<and> fst (executeProcess tCheck tScore tExpire st) = st \<lparr> reg_status := FAILED \<rparr>
         \<and> trustEntries (fst (executeProcess tCheck tScore tExpire st)) = trustEntries st
         \<and> verificationHistory (fst (executeProcess tCheck tScore tExpire st))
             = verificationHistory st"
proof -
  have i: "integrityIssues tCheck (st \<lparr> reg_status := IN_PROGRESS \<rparr>) = integrityIssues tCheck st"
    by (simp add: integrityIssues_def)
  have n: "integrityIssues tCheck st \<noteq> []"
    using assms by (simp add: integrityIssues_empty)
  show ?thesis
    unfolding executeProcess_def validateRegistryIntegrity_def Let_def i
    using n by simp
qed

theorem executeProcess_integrity_gate_witness:
  "hasIntegrityIssue 2000 (sampleRegistry [sampleEntry ''P1'' ''Org One'' PROVISIONAL 0 None,
                                           sampleEntry ''P2'' ''Org Two'' TRUSTED 0 (Some 1000)])
   \<and> success (snd (executeProcess 2000 2000 2000
         (sampleRegistry [sampleEntry ''P1'' ''Org One'' PROVISIONAL 0 None,
                          sampleEntry ''P2'' ''Org Two'' TRUSTED 0 (Some 1000)]))) = False
   \<and> trustEntries (fst (executeProcess 2000 2000 2000
         (sampleRegistry [sampleEntry ''P1'' ''Org One'' PROVISIONAL 0 None,
                          sampleEntry ''P2'' ''Org Two'' TRUSTED 0 (Some 1000)])))
       = trustEntries (sampleRegistry [sampleEntry ''P1'' ''Org One'' PROVISIONAL 0 None,
                                        sampleEntry ''P2'' ''Org Two'' TRUSTED 0 (Some 1000)])"
proof -
  let ?st = "sampleRegistry [sampleEntry ''P1'' ''Org One'' PROVISIONAL 0 None,
                             sampleEntry ''P2'' ''Org Two'' TRUSTED 0 (Some 1000)]"
  have h: "hasIntegrityIssue 2000 ?st"
    by (simp add: hasIntegrityIssue_def sampleRegistry_def sampleEntry_def
          newTrustRegistryProvider_def sampleCertification_def)
  show ?thesis
    using executeProcess_integrity_gate [OF h, of 2000 2000] h by blast
qed


lemma processExpiredEntries_entries:
  "trustEntries (processExpiredEntries now st)
     = map (\<lambda>(pid, entry). (pid, demoteIfExpired now entry)) (trustEntries st)"
  unfolding processExpiredEntries_def demoteIfExpired_def expiredAt_def
  by (auto simp: Let_def)

lemma processExpiredEntries_get:
  "map_get (trustEntries (processExpiredEntries now st)) pid
     = map_option (demoteIfExpired now) (map_get (trustEntries st) pid)"
  by (simp only: processExpiredEntries_entries map_get_map_values)

lemma updateTrustScores_get:
  "map_get (trustEntries (updateTrustScores now st)) pid
     = map_option (\<lambda>entry. entry \<lparr> trustScore := calculateTrustScore now entry \<rparr>)
         (map_get (trustEntries st) pid)"
  by (simp only: updateTrustScores_entries map_get_map_values)

lemma expired_entry_issue:
  assumes "map_get m pid = Some entry" and "expiredAt now entry"
  shows "concat (map (\<lambda>(pid, entry). entryIssues now pid entry) m) \<noteq> []"
  using assms
proof (induction m)
  case Nil
  then show ?case by simp
next
  case (Cons kv m)
  obtain k v where kv: "kv = (k, v)" by (cases kv)
  show ?case
  proof (cases "k = pid")
    case True
    with Cons.prems kv have "v = entry" by simp
    with Cons.prems(2) have "entryIssues now k v \<noteq> []"
      by (auto simp: entryIssues_def expiredAt_def split: option.splits)
    then show ?thesis by (simp add: kv)
  next
    case False
    with Cons kv show ?thesis by simp
  qed
qed

text \<open>
  What the sweep does to one entry. The expiry step sets exactly the TRUSTED entries that
  are expired at its instant to SUSPENDED. \<open>executeProcess\<close> reaches that step only when
  the integrity check has passed, and the integrity check fails on every entry that is
  expired at its own instant.
\<close>

lemma sweep_expiry_behaviour:
  assumes "getTrustEntry st pid = Some entry"
  shows "getTrustEntry (processExpiredEntries now st) pid
           = Some (if expiredAt now entry \<and> status entry = TRUSTED
                   then entry \<lparr> status := SUSPENDED \<rparr> else entry)
         \<and> (expiredAt tCheck entry \<longrightarrow>
              success (snd (executeProcess tCheck tScore tExpire st)) = False
              \<and> getTrustEntry (fst (executeProcess tCheck tScore tExpire st)) pid = Some entry)
         \<and> (success (snd (executeProcess tCheck tScore tExpire st)) \<longrightarrow>
              \<not> expiredAt tCheck entry
              \<and> getTrustEntry (fst (executeProcess tCheck tScore tExpire st)) pid
                  = Some (demoteIfExpired tExpire
                            (entry \<lparr> trustScore := calculateTrustScore tScore entry \<rparr>)))"
proof -
  have g: "map_get (trustEntries st) pid = Some entry"
    using assms by (simp add: getTrustEntry_def)
  have a: "getTrustEntry (processExpiredEntries now st) pid
           = Some (if expiredAt now entry \<and> status entry = TRUSTED
                   then entry \<lparr> status := SUSPENDED \<rparr> else entry)"
    unfolding getTrustEntry_def processExpiredEntries_get g
    by (simp add: demoteIfExpired_def)
  have i: "integrityIssues tCheck (st \<lparr> reg_status := IN_PROGRESS \<rparr>) = integrityIssues tCheck st"
    by (simp add: integrityIssues_def)
  have b: "success (snd (executeProcess tCheck tScore tExpire st)) = False
           \<and> getTrustEntry (fst (executeProcess tCheck tScore tExpire st)) pid = Some entry"
    if "expiredAt tCheck entry"
  proof -
    have "integrityIssues tCheck st \<noteq> []"
      unfolding integrityIssues_def by (rule expired_entry_issue [OF g that])
    then show ?thesis
      unfolding executeProcess_def validateRegistryIntegrity_def Let_def i getTrustEntry_def
      using g by simp
  qed
  have c: "\<not> expiredAt tCheck entry
           \<and> getTrustEntry (fst (executeProcess tCheck tScore tExpire st)) pid
               = Some (demoteIfExpired tExpire
                         (entry \<lparr> trustScore := calculateTrustScore tScore entry \<rparr>))"
    if s: "success (snd (executeProcess tCheck tScore tExpire st))"
  proof -
    have n: "\<not> expiredAt tCheck entry"
      using b s by auto
    have e: "integrityIssues tCheck st = []"
      using s unfolding executeProcess_def validateRegistryIntegrity_def Let_def i
      by (simp split: if_splits)
    have "trustEntries (fst (executeProcess tCheck tScore tExpire st))
            = trustEntries (processExpiredEntries tExpire
                (updateTrustScores tScore (st \<lparr> reg_status := IN_PROGRESS \<rparr>)))"
      unfolding executeProcess_def validateRegistryIntegrity_def Let_def i
      using e by simp
    then have "getTrustEntry (fst (executeProcess tCheck tScore tExpire st)) pid
                 = Some (demoteIfExpired tExpire
                           (entry \<lparr> trustScore := calculateTrustScore tScore entry \<rparr>))"
      using g by (simp add: getTrustEntry_def processExpiredEntries_get updateTrustScores_get)
    with n show ?thesis by simp
  qed
  from a b c show ?thesis by blast
qed


text \<open>
  When the three phases of a sweep read the same instant, a sweep that succeeds changes
  the status of no entry: an entry the expiry step would demote has already made the
  integrity check fail.
\<close>

lemma executeProcess_single_instant_keeps_status:
  assumes "getTrustEntry st pid = Some entry"
    and "success (snd (executeProcess t t t st))"
  shows "map_option status (getTrustEntry (fst (executeProcess t t t st)) pid)
           = Some (status entry)"
proof -
  from sweep_expiry_behaviour [OF assms(1), of t t t t] assms(2)
  have n: "\<not> expiredAt t entry"
    and g: "getTrustEntry (fst (executeProcess t t t st)) pid
              = Some (demoteIfExpired t (entry \<lparr> trustScore := calculateTrustScore t entry \<rparr>))"
    by simp_all
  from n have "demoteIfExpired t (entry \<lparr> trustScore := calculateTrustScore t entry \<rparr>)
                 = entry \<lparr> trustScore := calculateTrustScore t entry \<rparr>"
    by (simp add: demoteIfExpired_def expiredAt_def)
  with g show ?thesis by simp
qed

text \<open>
  C4. The claim: after \<open>executeProcess\<close> a TRUSTED entry whose expiration date is
  strictly before now is SUSPENDED, and a REVOKED entry with an expired date is unchanged.
  The code at a failing input: an entry registered as TRUSTED at 500 with expiration date
  1000, and the sweep run at 2000. The sweep fails at the integrity check and the entry is
  still TRUSTED afterwards, although \<open>processExpiredEntries\<close>, the step of the sweep
  written to demote it, sets it to SUSPENDED when run on the same registry. The REVOKED
  half holds: \<open>processExpiredEntries\<close> leaves an expired REVOKED entry REVOKED.
\<close>

theorem executeProcess_expired_trusted_not_demoted:
  "success (snd (registerParticipant 500 (sampleEntry ''P1'' ''Org One'' TRUSTED 0 (Some 1000))
                   (sampleRegistry [])))
   \<and> map_option status (getTrustEntry expiredTrustedRegistry ''P1'') = Some TRUSTED
   \<and> map_option expirationDate (getTrustEntry expiredTrustedRegistry ''P1'') = Some (Some 1000)
   \<and> success (snd (executeProcess 2000 2000 2000 expiredTrustedRegistry)) = False
   \<and> map_option status
         (getTrustEntry (fst (executeProcess 2000 2000 2000 expiredTrustedRegistry)) ''P1'')
       = Some TRUSTED
   \<and> map_option status
         (getTrustEntry (fst (executeProcess 2000 2000 2000 expiredTrustedRegistry)) ''P1'')
       \<noteq> Some SUSPENDED
   \<and> map_option status
         (getTrustEntry (processExpiredEntries 2000 expiredTrustedRegistry) ''P1'')
       = Some SUSPENDED
   \<and> map_option status
         (getTrustEntry (processExpiredEntries 2000
            (sampleRegistry [sampleEntry ''P2'' ''Org Two'' REVOKED 0 (Some 1000)])) ''P2'')
       = Some REVOKED"
  by (simp add: expiredTrustedRegistry_def registerParticipant_def validateInput_def map_has_def
        validateCertifications_def certificationIssues_def
        executeProcess_def validateRegistryIntegrity_def integrityIssues_def
        entryIssues_def processExpiredEntries_def getTrustEntry_def sampleRegistry_def
        sampleEntry_def newTrustRegistryProvider_def sampleCertification_def Let_def)

section \<open>Verification history and what verification leaves alone\<close>

text \<open>
  C6, as stated: a successful \<open>verifyTrust\<close> sets the entry's \<open>lastVerified\<close> to the
  verification time. It does not: an entry last verified at 0 and verified at 5000 is
  still last verified at 0.
\<close>

theorem verifyTrust_lastVerified_counterexample:
  "success (snd (verifyTrust 5000 (sampleRequest ''P1'' 5000)
       (sampleRegistry [sampleEntry ''P1'' ''Org One'' TRUSTED 0 None])))
   \<and> map_option lastVerified (getTrustEntry (fst (verifyTrust 5000 (sampleRequest ''P1'' 5000)
         (sampleRegistry [sampleEntry ''P1'' ''Org One'' TRUSTED 0 None]))) ''P1'') = Some 0
   \<and> map_option lastVerified (getTrustEntry (fst (verifyTrust 5000 (sampleRequest ''P1'' 5000)
         (sampleRegistry [sampleEntry ''P1'' ''Org One'' TRUSTED 0 None]))) ''P1'') \<noteq> Some 5000"
  by (simp add: verifyTrust_def getTrustEntry_def sampleRegistry_def sampleRequest_def
        sampleEntry_def newTrustRegistryProvider_def Let_def)

lemma verifyTrust_history:
  assumes "map_get (trustEntries st) (req_participantId request) = Some entry"
  shows "map_get (verificationHistory (fst (verifyTrust now request st))) pid =
           (if pid = req_participantId request
            then Some ((case map_get (verificationHistory st) pid of
                          None \<Rightarrow> [] | Some results \<Rightarrow> results)
                       @ [performTrustVerification now entry request])
            else map_get (verificationHistory st) pid)"
  using assms unfolding verifyTrust_def
  by (cases "map_get (verificationHistory st) (req_participantId request)")
     (simp_all add: Let_def map_has_def map_get_map_set)

text \<open>
  C6, amended. A successful \<open>verifyTrust\<close> on an existing entry changes no field of any
  entry, \<open>lastVerified\<close> included, and nothing else of the provider but the history: it
  appends exactly one result, the one it returns, at the end of that participant's
  history, keeping the earlier elements and their order, and leaves the history of every
  other participant as it was.
\<close>

theorem verifyTrust_frame:
  assumes "getTrustEntry st (req_participantId request) = Some entry"
  shows "success (snd (verifyTrust now request st))
         \<and> fst (verifyTrust now request st)
             = st \<lparr> verificationHistory :=
                      verificationHistory (fst (verifyTrust now request st)) \<rparr>
         \<and> trustEntries (fst (verifyTrust now request st)) = trustEntries st
         \<and> getTrustEntry (fst (verifyTrust now request st)) (req_participantId request)
             = Some entry
         \<and> getVerificationHistory (fst (verifyTrust now request st)) (req_participantId request)
             = getVerificationHistory st (req_participantId request)
               @ [performTrustVerification now entry request]
         \<and> (other \<noteq> req_participantId request \<longrightarrow>
              getVerificationHistory (fst (verifyTrust now request st)) other
                = getVerificationHistory st other)"
proof -
  have e: "map_get (trustEntries st) (req_participantId request) = Some entry"
    using assms by (simp add: getTrustEntry_def)
  have s: "success (snd (verifyTrust now request st))"
    using e by (simp add: verifyTrust_def Let_def)
  have f: "fst (verifyTrust now request st)
             = st \<lparr> verificationHistory :=
                      verificationHistory (fst (verifyTrust now request st)) \<rparr>"
    using e by (simp add: verifyTrust_def Let_def)
  have h: "getVerificationHistory (fst (verifyTrust now request st)) (req_participantId request)
             = getVerificationHistory st (req_participantId request)
               @ [performTrustVerification now entry request]"
    by (simp add: getVerificationHistory_def verifyTrust_history [OF e])
  have o: "other \<noteq> req_participantId request \<longrightarrow>
              getVerificationHistory (fst (verifyTrust now request st)) other
                = getVerificationHistory st other"
    by (simp add: getVerificationHistory_def verifyTrust_history [OF e])
  from s f h o show ?thesis
    using assms by (simp add: verifyTrust_entries getTrustEntry_def)
qed

theorem verifyTrust_frame_witness:
  "getTrustEntry (sampleRegistry [sampleEntry ''P1'' ''Org One'' TRUSTED 0 None])
       (req_participantId (sampleRequest ''P1'' 5000))
     = Some (sampleEntry ''P1'' ''Org One'' TRUSTED 0 None)
   \<and> ''P2'' \<noteq> req_participantId (sampleRequest ''P1'' 5000)
   \<and> getTrustEntry (fst (verifyTrust 5000 (sampleRequest ''P1'' 5000)
         (sampleRegistry [sampleEntry ''P1'' ''Org One'' TRUSTED 0 None])))
       (req_participantId (sampleRequest ''P1'' 5000))
     = Some (sampleEntry ''P1'' ''Org One'' TRUSTED 0 None)
   \<and> getVerificationHistory (fst (verifyTrust 5000 (sampleRequest ''P1'' 5000)
         (sampleRegistry [sampleEntry ''P1'' ''Org One'' TRUSTED 0 None])))
       (req_participantId (sampleRequest ''P1'' 5000))
     = getVerificationHistory (sampleRegistry [sampleEntry ''P1'' ''Org One'' TRUSTED 0 None])
         (req_participantId (sampleRequest ''P1'' 5000))
       @ [performTrustVerification 5000 (sampleEntry ''P1'' ''Org One'' TRUSTED 0 None)
            (sampleRequest ''P1'' 5000)]
   \<and> getVerificationHistory (fst (verifyTrust 5000 (sampleRequest ''P1'' 5000)
         (sampleRegistry [sampleEntry ''P1'' ''Org One'' TRUSTED 0 None]))) ''P2''
     = getVerificationHistory (sampleRegistry [sampleEntry ''P1'' ''Org One'' TRUSTED 0 None])
         ''P2''"
proof -
  let ?e = "sampleEntry ''P1'' ''Org One'' TRUSTED 0 None"
  have h: "getTrustEntry (sampleRegistry [?e]) (req_participantId (sampleRequest ''P1'' 5000))
             = Some ?e"
    by (simp add: getTrustEntry_def sampleRegistry_def sampleRequest_def sampleEntry_def)
  have n: "''P2'' \<noteq> req_participantId (sampleRequest ''P1'' 5000)"
    by (simp add: sampleRequest_def)
  show ?thesis
    using verifyTrust_frame [OF h, of 5000 "''P2''"] h n by blast
qed

section \<open>Duplicate registration\<close>

text \<open>
  C7, as stated: a second \<open>registerParticipant\<close> with an id already present returns the
  duplicate failure. Input validation runs before the duplicate check, so a submitted
  entry with that id and an empty name is rejected as invalid data instead.
\<close>

theorem registerParticipant_duplicate_counterexample:
  "getTrustEntry (sampleRegistry [sampleEntry ''P1'' ''Org One'' TRUSTED 0 None])
       (participantId (sampleEntry ''P1'' [] TRUSTED 0 None))
     = Some (sampleEntry ''P1'' ''Org One'' TRUSTED 0 None)
   \<and> message (snd (registerParticipant 1000 (sampleEntry ''P1'' [] TRUSTED 0 None)
         (sampleRegistry [sampleEntry ''P1'' ''Org One'' TRUSTED 0 None])))
       = ''Invalid trust registry entry data''
   \<and> message (snd (registerParticipant 1000 (sampleEntry ''P1'' [] TRUSTED 0 None)
         (sampleRegistry [sampleEntry ''P1'' ''Org One'' TRUSTED 0 None])))
       \<noteq> ''Participant already registered''"
  by (simp add: registerParticipant_def validateInput_def getTrustEntry_def sampleRegistry_def
        sampleEntry_def newTrustRegistryProvider_def)

text \<open>
  C7, amended. A \<open>registerParticipant\<close> call with an id already present fails and
  leaves the whole provider, and so the originally stored entry, unmodified; the failure
  is the duplicate one when the submitted entry passes input validation and the
  invalid-data one otherwise.
\<close>

theorem registerParticipant_duplicate:
  assumes "getTrustEntry st (participantId entry) = Some original"
  shows "success (snd (registerParticipant now entry st)) = False
         \<and> fst (registerParticipant now entry st) = st
         \<and> getTrustEntry (fst (registerParticipant now entry st)) (participantId entry)
             = Some original
         \<and> message (snd (registerParticipant now entry st))
             = (if validateInput entry then ''Participant already registered''
                else ''Invalid trust registry entry data'')"
  using assms unfolding registerParticipant_def getTrustEntry_def map_has_def
  by simp

theorem registerParticipant_duplicate_witness:
  "getTrustEntry (sampleRegistry [sampleEntry ''P1'' ''Org One'' TRUSTED 0 None])
       (participantId (sampleEntry ''P1'' ''Other Org'' PROVISIONAL 500 None))
     = Some (sampleEntry ''P1'' ''Org One'' TRUSTED 0 None)
   \<and> validateInput (sampleEntry ''P1'' ''Other Org'' PROVISIONAL 500 None)
   \<and> fst (registerParticipant 1000 (sampleEntry ''P1'' ''Other Org'' PROVISIONAL 500 None)
         (sampleRegistry [sampleEntry ''P1'' ''Org One'' TRUSTED 0 None]))
       = sampleRegistry [sampleEntry ''P1'' ''Org One'' TRUSTED 0 None]
   \<and> success (snd (registerParticipant 1000 (sampleEntry ''P1'' ''Other Org'' PROVISIONAL 500 None)
         (sampleRegistry [sampleEntry ''P1'' ''Org One'' TRUSTED 0 None]))) = False
   \<and> message (snd (registerParticipant 1000 (sampleEntry ''P1'' ''Other Org'' PROVISIONAL 500 None)
         (sampleRegistry [sampleEntry ''P1'' ''Org One'' TRUSTED 0 None])))
       = ''Participant already registered''"
proof -
  let ?st = "sampleRegistry [sampleEntry ''P1'' ''Org One'' TRUSTED 0 None]"
  let ?e = "sampleEntry ''P1'' ''Other Org'' PROVISIONAL 500 None"
  have h: "getTrustEntry ?st (participantId ?e) = Some (sampleEntry ''P1'' ''Org One'' TRUSTED 0 None)"
    by (simp add: getTrustEntry_def sampleRegistry_def sampleEntry_def)
  have v: "validateInput ?e"
    by (simp add: validateInput_def sampleEntry_def)
  show ?thesis
    using registerParticipant_duplicate [OF h, of 1000] h v by simp
qed


section \<open>Registry search\<close>

lemma matchesCriteria_zero:
  "matchesCriteria (criteria \<lparr> minTrustScore := Some 0 \<rparr>) entry
     = matchesCriteria (criteria \<lparr> minTrustScore := None \<rparr>) entry"
  by (simp add: matchesCriteria_def)

lemma matchesCriteria_nonzero:
  "m \<noteq> 0 \<Longrightarrow>
   matchesCriteria (criteria \<lparr> minTrustScore := Some m \<rparr>) entry
     = (matchesCriteria (criteria \<lparr> minTrustScore := None \<rparr>) entry \<and> \<not> trustScore entry < m)"
  by (simp add: matchesCriteria_def)

lemma matchesCriteria_nonpositive:
  "m \<le> 0 \<Longrightarrow> 0 \<le> trustScore entry \<Longrightarrow>
   matchesCriteria (criteria \<lparr> minTrustScore := Some m \<rparr>) entry
     = matchesCriteria (criteria \<lparr> minTrustScore := None \<rparr>) entry"
  by (simp add: matchesCriteria_def)

text \<open>
  C10. \<open>searchTrustRegistry\<close> with \<open>minTrustScore\<close> equal to 0 returns what it returns
  with \<open>minTrustScore\<close> omitted. A \<open>minTrustScore\<close> other than 0 removes from that result
  exactly the entries whose score is below it; on a registry whose scores are in range a
  \<open>minTrustScore\<close> that is not positive removes none, so only a strictly positive one
  excludes entries.
\<close>

theorem searchTrustRegistry_minTrustScore_zero:
  "searchTrustRegistry (criteria \<lparr> minTrustScore := Some 0 \<rparr>) st
     = searchTrustRegistry (criteria \<lparr> minTrustScore := None \<rparr>) st
   \<and> (m \<noteq> 0 \<longrightarrow>
        searchTrustRegistry (criteria \<lparr> minTrustScore := Some m \<rparr>) st
          = filter (\<lambda>entry. \<not> trustScore entry < m)
              (searchTrustRegistry (criteria \<lparr> minTrustScore := None \<rparr>) st))
   \<and> (scoresInRange st \<and> m \<le> 0 \<longrightarrow>
        searchTrustRegistry (criteria \<lparr> minTrustScore := Some m \<rparr>) st
          = searchTrustRegistry (criteria \<lparr> minTrustScore := None \<rparr>) st)"
proof -
  have z: "searchTrustRegistry (criteria \<lparr> minTrustScore := Some 0 \<rparr>) st
             = searchTrustRegistry (criteria \<lparr> minTrustScore := None \<rparr>) st"
    unfolding searchTrustRegistry_def
    by (rule filter_cong [OF refl]) (rule matchesCriteria_zero)
  have p: "m \<noteq> 0 \<longrightarrow>
        searchTrustRegistry (criteria \<lparr> minTrustScore := Some m \<rparr>) st
          = filter (\<lambda>entry. \<not> trustScore entry < m)
              (searchTrustRegistry (criteria \<lparr> minTrustScore := None \<rparr>) st)"
  proof
    assume "m \<noteq> 0"
    then have "matchesCriteria (criteria \<lparr> minTrustScore := Some m \<rparr>)
                 = (\<lambda>entry. matchesCriteria (criteria \<lparr> minTrustScore := None \<rparr>) entry
                             \<and> \<not> trustScore entry < m)"
      by (intro ext) (rule matchesCriteria_nonzero)
    then show "searchTrustRegistry (criteria \<lparr> minTrustScore := Some m \<rparr>) st
                 = filter (\<lambda>entry. \<not> trustScore entry < m)
                     (searchTrustRegistry (criteria \<lparr> minTrustScore := None \<rparr>) st)"
      unfolding searchTrustRegistry_def by simp
  qed
  have n: "scoresInRange st \<and> m \<le> 0 \<longrightarrow>
        searchTrustRegistry (criteria \<lparr> minTrustScore := Some m \<rparr>) st
          = searchTrustRegistry (criteria \<lparr> minTrustScore := None \<rparr>) st"
  proof
    assume a: "scoresInRange st \<and> m \<le> 0"
    then have "\<forall>entry \<in> set (map_values (trustEntries st)). 0 \<le> trustScore entry"
      by (auto simp: scoresInRange_def scoreInRange_def list_all_iff map_values_def)
    then show "searchTrustRegistry (criteria \<lparr> minTrustScore := Some m \<rparr>) st
                 = searchTrustRegistry (criteria \<lparr> minTrustScore := None \<rparr>) st"
      unfolding searchTrustRegistry_def using a
      by (intro filter_cong refl) (simp add: matchesCriteria_nonpositive)
  qed
  from z p n show ?thesis by blast
qed

theorem searchTrustRegistry_minTrustScore_zero_witness:
  "(90::int) \<noteq> 0
   \<and> scoresInRange (sampleRegistry [sampleEntry ''P1'' ''Org One'' TRUSTED 0 None])
   \<and> (- 5 :: int) \<le> 0
   \<and> searchTrustRegistry (anyCriteria \<lparr> minTrustScore := Some 0 \<rparr>)
         (sampleRegistry [sampleEntry ''P1'' ''Org One'' TRUSTED 0 None])
       = searchTrustRegistry (anyCriteria \<lparr> minTrustScore := None \<rparr>)
           (sampleRegistry [sampleEntry ''P1'' ''Org One'' TRUSTED 0 None])
   \<and> searchTrustRegistry (anyCriteria \<lparr> minTrustScore := Some 90 \<rparr>)
         (sampleRegistry [sampleEntry ''P1'' ''Org One'' TRUSTED 0 None])
       = filter (\<lambda>entry. \<not> trustScore entry < 90)
           (searchTrustRegistry (anyCriteria \<lparr> minTrustScore := None \<rparr>)
              (sampleRegistry [sampleEntry ''P1'' ''Org One'' TRUSTED 0 None]))
   \<and> searchTrustRegistry (anyCriteria \<lparr> minTrustScore := Some (- 5) \<rparr>)
         (sampleRegistry [sampleEntry ''P1'' ''Org One'' TRUSTED 0 None])
       = searchTrustRegistry (anyCriteria \<lparr> minTrustScore := None \<rparr>)
           (sampleRegistry [sampleEntry ''P1'' ''Org One'' TRUSTED 0 None])"
proof -
  let ?st = "sampleRegistry [sampleEntry ''P1'' ''Org One'' TRUSTED 0 None]"
  have h: "scoresInRange ?st"
    by (simp add: scoresInRange_def scoreInRange_def sampleRegistry_def sampleEntry_def
          newTrustRegistryProvider_def)
  have a: "(90::int) \<noteq> 0" and b: "(- 5 :: int) \<le> 0"
    by simp_all
  show ?thesis
    using searchTrustRegistry_minTrustScore_zero [of anyCriteria ?st 90]
          searchTrustRegistry_minTrustScore_zero [of anyCriteria ?st "- 5"] h a b
    by blast
qed

section \<open>Orchestrator: provider dispatch\<close>

lemma map_has_keys: "map_has m k = (k \<in> fst ` set m)"
  unfolding map_has_def by (induction m) auto

lemma keys_map_set: "fst ` set (map_set m k v) = insert k (fst ` set m)"
  by (rule set_eqI) (simp add: map_has_keys [symmetric] map_has_map_set)

lemma providersWithinDirectory_new: "providersWithinDirectory (newPCTFFramework fid ver)"
  by (simp add: providersWithinDirectory_def newPCTFFramework_def)

lemma providersWithinDirectory_absent:
  assumes "providersWithinDirectory fw" and "\<not> map_has (participants fw) pid"
  shows "\<not> map_has (authenticationProviders fw) pid \<and> \<not> map_has (identityProviders fw) pid
         \<and> \<not> map_has (privacyProviders fw) pid \<and> \<not> map_has (infrastructureProviders fw) pid
         \<and> \<not> map_has (walletProviders fw) pid \<and> \<not> map_has (trustRegistries fw) pid"
  using assms unfolding providersWithinDirectory_def
  by (auto simp: list_all_iff map_has_keys)

lemma validateParticipant_success:
  "success (validateParticipant now participant fw) \<longleftrightarrow>
     p_participantId participant \<noteq> [] \<and> p_name participant \<noteq> []
     \<and> \<not> map_has (participants fw) (p_participantId participant)"
  by (simp add: validateParticipant_def)

lemma framework_registerParticipant_success:
  "success (snd (framework_registerParticipant now participant fw))
     = success (validateParticipant now participant fw)"
  by (simp add: framework_registerParticipant_def Let_def)

lemma framework_registerParticipant_fst:
  "success (validateParticipant now participant fw) \<Longrightarrow>
   fst (framework_registerParticipant now participant fw)
     = initializeServiceProviders participant
         (fw \<lparr> participants :=
                 map_set (participants fw) (p_participantId participant) participant \<rparr>)"
  by (simp add: framework_registerParticipant_def Let_def)

text \<open>
  C8. After a successful registration with the orchestrator of a participant of type
  ISSUER, VERIFIER or RELYING_PARTY, a Privacy provider is attached under its id in every
  case, and an Infrastructure provider is attached if and only if its certification level
  is LOA3 or LOA4; no provider of another kind is attached under the id. So an ISSUER at
  LOA2 gets a Privacy provider only, and at LOA3 Privacy and Infrastructure. The
  framework state is one in which every provider is keyed by a registered participant,
  which holds of a new framework and is kept by every registration.
\<close>

theorem privacy_infrastructure_dispatch:
  assumes "providersWithinDirectory fw"
    and "success (snd (framework_registerParticipant now participant fw))"
    and "p_type participant = ISSUER \<or> p_type participant = VERIFIER
         \<or> p_type participant = RELYING_PARTY"
  shows "map_get (participants (fst (framework_registerParticipant now participant fw)))
             (p_participantId participant) = Some participant
         \<and> map_get (privacyProviders (fst (framework_registerParticipant now participant fw)))
             (p_participantId participant)
             = Some (newPrivacyServiceProvider (p_participantId participant) (p_name participant))
         \<and> (map_has (infrastructureProviders (fst (framework_registerParticipant now participant fw)))
               (p_participantId participant)
             \<longleftrightarrow> certificationLevel participant = LOA3 \<or> certificationLevel participant = LOA4)
         \<and> (certificationLevel participant = LOA3 \<or> certificationLevel participant = LOA4 \<longrightarrow>
              map_get (infrastructureProviders (fst (framework_registerParticipant now participant fw)))
                (p_participantId participant)
              = Some (newInfrastructureServiceProvider (p_participantId participant)
                        (p_name participant) ENHANCED (certificationLevel participant)))
         \<and> \<not> map_has (authenticationProviders (fst (framework_registerParticipant now participant fw)))
               (p_participantId participant)
         \<and> \<not> map_has (identityProviders (fst (framework_registerParticipant now participant fw)))
               (p_participantId participant)
         \<and> \<not> map_has (walletProviders (fst (framework_registerParticipant now participant fw)))
               (p_participantId participant)
         \<and> \<not> map_has (trustRegistries (fst (framework_registerParticipant now participant fw)))
               (p_participantId participant)"
proof -
  have v: "success (validateParticipant now participant fw)"
    using assms(2) by (simp add: framework_registerParticipant_success)
  then have n: "\<not> map_has (participants fw) (p_participantId participant)"
    by (simp add: validateParticipant_success)
  note absent = providersWithinDirectory_absent [OF assms(1) n]
  have i: "initializeServiceProviders participant
             (fw \<lparr> participants :=
                     map_set (participants fw) (p_participantId participant) participant \<rparr>)
           = attachPrivacyInfrastructure participant
               (fw \<lparr> participants :=
                       map_set (participants fw) (p_participantId participant) participant \<rparr>)"
    using assms(3) by (auto simp: initializeServiceProviders_def)
  show ?thesis
    unfolding framework_registerParticipant_fst [OF v] i
    using absent
    by (simp add: attachPrivacyInfrastructure_def Let_def map_get_map_set map_has_map_set)
qed


lemma providersWithinDirectory_keys:
  "providersWithinDirectory fw \<longleftrightarrow>
     fst ` set (authenticationProviders fw) \<union> fst ` set (identityProviders fw)
     \<union> fst ` set (privacyProviders fw) \<union> fst ` set (infrastructureProviders fw)
     \<union> fst ` set (walletProviders fw) \<union> fst ` set (trustRegistries fw)
     \<subseteq> fst ` set (participants fw)"
  unfolding providersWithinDirectory_def
  by (auto simp: list_all_iff map_has_keys)

lemma providersWithinDirectory_register:
  assumes "providersWithinDirectory fw"
  shows "providersWithinDirectory (fst (framework_registerParticipant now participant fw))"
proof (cases "success (validateParticipant now participant fw)")
  case False
  then show ?thesis
    using assms by (simp add: framework_registerParticipant_def Let_def)
next
  case True
  show ?thesis
    unfolding framework_registerParticipant_fst [OF True]
    using assms unfolding providersWithinDirectory_keys
    by (cases "p_type participant")
       (auto simp: initializeServiceProviders_def attachAuthentication_def attachIdentity_def
          attachWallet_def attachTrustRegistry_def attachPrivacyInfrastructure_def Let_def
          keys_map_set)
qed

theorem privacy_infrastructure_dispatch_witness:
  "providersWithinDirectory (newPCTFFramework ''PCTF'' ''1.0.0'')
   \<and> success (snd (framework_registerParticipant 1000 (sampleParticipant ''ISS-001'' ISSUER LOA2)
                   (newPCTFFramework ''PCTF'' ''1.0.0'')))
   \<and> success (snd (framework_registerParticipant 1000 (sampleParticipant ''ISS-001'' ISSUER LOA3)
                   (newPCTFFramework ''PCTF'' ''1.0.0'')))
   \<and> map_has (privacyProviders (fst (framework_registerParticipant 1000
         (sampleParticipant ''ISS-001'' ISSUER LOA2) (newPCTFFramework ''PCTF'' ''1.0.0''))))
         ''ISS-001''
   \<and> \<not> map_has (infrastructureProviders (fst (framework_registerParticipant 1000
         (sampleParticipant ''ISS-001'' ISSUER LOA2) (newPCTFFramework ''PCTF'' ''1.0.0''))))
         ''ISS-001''
   \<and> map_has (privacyProviders (fst (framework_registerParticipant 1000
         (sampleParticipant ''ISS-001'' ISSUER LOA3) (newPCTFFramework ''PCTF'' ''1.0.0''))))
         ''ISS-001''
   \<and> map_has (infrastructureProviders (fst (framework_registerParticipant 1000
         (sampleParticipant ''ISS-001'' ISSUER LOA3) (newPCTFFramework ''PCTF'' ''1.0.0''))))
         ''ISS-001''"
proof -
  let ?fw = "newPCTFFramework ''PCTF'' ''1.0.0''"
  let ?p2 = "sampleParticipant ''ISS-001'' ISSUER LOA2"
  let ?p3 = "sampleParticipant ''ISS-001'' ISSUER LOA3"
  have w: "providersWithinDirectory ?fw"
    by (simp add: providersWithinDirectory_def newPCTFFramework_def)
  have s2: "success (snd (framework_registerParticipant 1000 ?p2 ?fw))"
    by (simp add: framework_registerParticipant_def validateParticipant_def map_has_def
          newPCTFFramework_def sampleParticipant_def Let_def)
  have s3: "success (snd (framework_registerParticipant 1000 ?p3 ?fw))"
    by (simp add: framework_registerParticipant_def validateParticipant_def map_has_def
          newPCTFFramework_def sampleParticipant_def Let_def)
  have t2: "p_type ?p2 = ISSUER \<or> p_type ?p2 = VERIFIER \<or> p_type ?p2 = RELYING_PARTY"
    and t3: "p_type ?p3 = ISSUER \<or> p_type ?p3 = VERIFIER \<or> p_type ?p3 = RELYING_PARTY"
    by (simp_all add: sampleParticipant_def)
  have f: "p_participantId ?p2 = ''ISS-001''" "p_participantId ?p3 = ''ISS-001''"
    "certificationLevel ?p2 = LOA2" "certificationLevel ?p3 = LOA3"
    by (simp_all add: sampleParticipant_def)
  show ?thesis
    using privacy_infrastructure_dispatch [OF w s2 t2]
          privacy_infrastructure_dispatch [OF w s3 t3] w s2 s3
    unfolding f by (simp add: map_has_def)
qed


section \<open>Orchestrator: conformance aggregation\<close>

lemma presentSlots_snoc:
  "presentSlots (slots @ [(cname, criteria)])
     = presentSlots slots @ (case criteria of None \<Rightarrow> [] | Some cs \<Rightarrow> [(cname, cs)])"
  by (cases criteria) (simp_all add: presentSlots_def List.map_filter_def)

lemma assessIfPresent_step:
  "assessIfPresent now cname criteria (conformanceOver now pid slots)
     = conformanceOver now pid (slots @ [(cname, criteria)])"
  by (cases criteria)
     (simp_all add: assessIfPresent_def conformanceOver_def presentSlots_snoc assessAll_def
        Let_def)

lemma conformanceOver_empty:
  "\<lparr> car_participantId = pid, assessmentDate = now, overallConformance = True,
     componentResults = [] \<rparr> = conformanceOver now pid []"
  by (simp add: conformanceOver_def presentSlots_def assessAll_def List.map_filter_def)

lemma assessConformance_conformanceOver:
  assumes "map_get (participants fw) pid = Some participant"
  shows "assessConformance now pid fw
           = \<lparr> success = True, message = ''Conformance assessment completed'',
               data = Some (AssessmentData (conformanceOver now pid (providerSlots fw pid))),
               errors = None, timestamp = now \<rparr>"
  using assms unfolding assessConformance_def Let_def conformanceOver_empty
    assessIfPresent_step providerSlots_def
  by simp

lemma componentName_assessAll: "map componentName (assessAll now comps) = map fst comps"
  by (simp add: assessAll_def assessComponentConformance_def Let_def split_beta)

lemma presentSlots_Cons:
  "presentSlots ((cname, criteria) # slots)
     = (case criteria of None \<Rightarrow> [] | Some cs \<Rightarrow> [(cname, cs)]) @ presentSlots slots"
  by (cases criteria) (simp_all add: presentSlots_def List.map_filter_def)

lemma presentSlots_Nil: "presentSlots [] = []"
  by (simp add: presentSlots_def List.map_filter_def)

lemma map_has_map_option: "(map_option f (map_get m k) \<noteq> None) = map_has m k"
  by (simp add: map_has_def)

lemma filter_six:
  "filter P [a, b, c, d, e, f]
     = (if P a then [a] else []) @ (if P b then [b] else []) @ (if P c then [c] else [])
       @ (if P d then [d] else []) @ (if P e then [e] else []) @ (if P f then [f] else []) @ []"
  by simp

lemma names_of_slot:
  "map fst (case criteria of None \<Rightarrow> [] | Some cs \<Rightarrow> [(cname, cs)])
     = (if criteria \<noteq> None then [cname] else [])"
  by (cases criteria) simp_all

lemma providerPresent_names:
  "providerPresent fw pid ''Authentication'' = map_has (authenticationProviders fw) pid"
  "providerPresent fw pid ''VerifiedPerson'' = map_has (identityProviders fw) pid"
  "providerPresent fw pid ''Privacy'' = map_has (privacyProviders fw) pid"
  "providerPresent fw pid ''Infrastructure'' = map_has (infrastructureProviders fw) pid"
  "providerPresent fw pid ''DigitalWallet'' = map_has (walletProviders fw) pid"
  "providerPresent fw pid ''TrustRegistry'' = map_has (trustRegistries fw) pid"
  by (simp_all add: providerPresent_def)

lemma attachedComponents_names:
  "map fst (attachedComponents fw pid) = filter (providerPresent fw pid) componentOrder"
  unfolding attachedComponents_def providerSlots_def componentOrder_def
    presentSlots_Cons presentSlots_Nil filter_six providerPresent_names
    map_append names_of_slot map_has_map_option list.map
  by (rule refl)


text \<open>
  C9. For every participant in the directory, \<open>assessConformance\<close> succeeds with exactly
  one component result per provider map that contains the id, each the assessment of the
  catalog of the provider found there, in the fixed order Authentication, VerifiedPerson,
  Privacy, Infrastructure, DigitalWallet, TrustRegistry; \<open>overallConformance\<close> is the
  conjunction of the \<open>isConformant\<close> flags of these results. A participant with no
  provider attached gets an empty list and \<open>overallConformance\<close> true.
\<close>

theorem assessConformance_components:
  assumes "map_get (participants fw) pid = Some participant"
  shows "assessConformance now pid fw
           = \<lparr> success = True, message = ''Conformance assessment completed'',
               data = Some (AssessmentData
                 \<lparr> car_participantId = pid, assessmentDate = now,
                   overallConformance =
                     list_all isConformant (assessAll now (attachedComponents fw pid)),
                   componentResults = assessAll now (attachedComponents fw pid) \<rparr>),
               errors = None, timestamp = now \<rparr>
         \<and> map componentName (assessAll now (attachedComponents fw pid))
             = filter (providerPresent fw pid) componentOrder
         \<and> length (assessAll now (attachedComponents fw pid))
             = length (filter (providerPresent fw pid) componentOrder)
         \<and> ((\<forall>cname \<in> set componentOrder. \<not> providerPresent fw pid cname) \<longrightarrow>
              assessAll now (attachedComponents fw pid) = []
              \<and> list_all isConformant (assessAll now (attachedComponents fw pid)) = True)"
proof -
  have r: "assessConformance now pid fw
           = \<lparr> success = True, message = ''Conformance assessment completed'',
               data = Some (AssessmentData
                 \<lparr> car_participantId = pid, assessmentDate = now,
                   overallConformance =
                     list_all isConformant (assessAll now (attachedComponents fw pid)),
                   componentResults = assessAll now (attachedComponents fw pid) \<rparr>),
               errors = None, timestamp = now \<rparr>"
    unfolding assessConformance_conformanceOver [OF assms] conformanceOver_def
      attachedComponents_def by (rule refl)
  have n: "map componentName (assessAll now (attachedComponents fw pid))
             = filter (providerPresent fw pid) componentOrder"
    by (simp add: componentName_assessAll attachedComponents_names)
  have l: "length (assessAll now (attachedComponents fw pid))
             = length (filter (providerPresent fw pid) componentOrder)"
    using arg_cong [OF n, of length] by simp
  have e: "(\<forall>cname \<in> set componentOrder. \<not> providerPresent fw pid cname) \<longrightarrow>
              assessAll now (attachedComponents fw pid) = []
              \<and> list_all isConformant (assessAll now (attachedComponents fw pid)) = True"
  proof
    assume "\<forall>cname \<in> set componentOrder. \<not> providerPresent fw pid cname"
    then have "filter (providerPresent fw pid) componentOrder = []"
      by (simp add: filter_empty_conv)
    with l have "assessAll now (attachedComponents fw pid) = []"
      by simp
    then show "assessAll now (attachedComponents fw pid) = []
              \<and> list_all isConformant (assessAll now (attachedComponents fw pid)) = True"
      by simp
  qed
  from r n l e show ?thesis by blast
qed

lemma issuerFramework_eval:
  "participants issuerFramework = [(''ISS-001'', sampleParticipant ''ISS-001'' ISSUER LOA3)]"
  "authenticationProviders issuerFramework = []"
  "identityProviders issuerFramework = []"
  "map_has (privacyProviders issuerFramework) ''ISS-001''"
  "map_has (infrastructureProviders issuerFramework) ''ISS-001''"
  "walletProviders issuerFramework = []"
  "trustRegistries issuerFramework = []"
  by (simp_all add: issuerFramework_def framework_registerParticipant_def
        validateParticipant_def map_has_def newPCTFFramework_def sampleParticipant_def
        initializeServiceProviders_def attachPrivacyInfrastructure_def Let_def)

theorem assessConformance_components_witness:
  "map_get (participants issuerFramework) ''ISS-001''
     = Some (sampleParticipant ''ISS-001'' ISSUER LOA3)
   \<and> map componentName (assessAll 2000 (attachedComponents issuerFramework ''ISS-001''))
       = [''Privacy'', ''Infrastructure'']
   \<and> map_get (participants bareFramework) ''X-001''
       = Some (sampleParticipant ''X-001'' VERIFIER LOA1)
   \<and> filter (providerPresent bareFramework ''X-001'') componentOrder = []
   \<and> assessConformance 2000 ''X-001'' bareFramework
       = \<lparr> success = True, message = ''Conformance assessment completed'',
           data = Some (AssessmentData
             \<lparr> car_participantId = ''X-001'', assessmentDate = 2000,
               overallConformance = True, componentResults = [] \<rparr>),
           errors = None, timestamp = 2000 \<rparr>"
proof -
  have h: "map_get (participants issuerFramework) ''ISS-001''
             = Some (sampleParticipant ''ISS-001'' ISSUER LOA3)"
    by (simp add: issuerFramework_eval)
  have p: "filter (providerPresent issuerFramework ''ISS-001'') componentOrder
             = [''Privacy'', ''Infrastructure'']"
    by (simp add: componentOrder_def providerPresent_names issuerFramework_eval)
       (simp add: map_has_def)
  have b: "map_get (participants bareFramework) ''X-001''
             = Some (sampleParticipant ''X-001'' VERIFIER LOA1)"
    by (simp add: bareFramework_def newPCTFFramework_def)
  have q: "\<forall>cname \<in> set componentOrder. \<not> providerPresent bareFramework ''X-001'' cname"
    by (simp add: componentOrder_def providerPresent_names map_has_def bareFramework_def
          newPCTFFramework_def)
  have f: "filter (providerPresent bareFramework ''X-001'') componentOrder = []"
    using q by (simp add: filter_empty_conv)
  show ?thesis
    using assessConformance_components [OF h, of 2000]
          assessConformance_components [OF b, of 2000] h b q f
    unfolding p by simp
qed

end
